theory Spec2Isabelle
  imports Complex_Main "HOL-Library.Char_ord" "HOL-Library.List_Lexorder"
begin

section \<open>Data frames\<close>

text \<open>
  The notebook works on pandas data frames. A frame is a list of row labels (its index)
  and a list of named, typed columns; every column holds one cell per row. A cell is a
  number, a text, or missing (pandas' NaN/None). Floating-point numbers are taken as
  reals, and the cells of an integer column are whole numbers. The dtype \<open>Integer\<close> stands
  for every integer dtype of NumPy (the \<open>int64\<close> that \<open>read_csv\<close> gives a column of whole
  numbers, and the \<open>uint8\<close> of indicator columns):
  \<open>select_dtypes(include=['integer', 'float'])\<close> selects them all.

  The functions of pandas, NumPy and scikit-learn that the notebook calls are written
  out here as far as the notebook depends on them, with the behaviour of the versions
  it ran on (Python 3.7, with pandas 1 and scikit-learn 0.2x). Every exception they raise is
  a value of \<open>error\<close>, and a function that can raise returns \<open>error + result\<close>.
\<close>

datatype dtype = Integer | Float | Object | Category

datatype cell = NA | Num real | Str string

datatype error = KeyError | IndexError | ValueError | TypeError

record column =
  cname :: string
  ctype :: dtype
  cells :: "cell list"

record dataframe =
  index :: "int list"
  columns :: "column list"

text \<open>Sequencing: the first exception ends the computation.\<close>

definition sum_bind :: "error + 'a \<Rightarrow> ('a \<Rightarrow> error + 'b) \<Rightarrow> error + 'b" where
  "sum_bind m f = (case m of Inl e \<Rightarrow> Inl e | Inr x \<Rightarrow> f x)"

text \<open>\<open>len(df)\<close>: the number of rows.\<close>

definition len_df :: "dataframe \<Rightarrow> nat" where
  "len_df df = length (index df)"

text \<open>\<open>isnull().sum()\<close> of one column: the number of missing cells.\<close>

definition isnull_sum :: "column \<Rightarrow> nat" where
  "isnull_sum c = length (filter (\<lambda>v. v = NA) (cells c))"

text \<open>\<open>select_dtypes(include=['integer', 'float'])\<close> and \<open>select_dtypes(include=['object'])\<close>.\<close>

definition numeric :: "column \<Rightarrow> bool" where
  "numeric c = (ctype c = Integer \<or> ctype c = Float)"

definition is_object :: "column \<Rightarrow> bool" where
  "is_object c = (ctype c = Object)"

definition column_names :: "dataframe \<Rightarrow> string list" where
  "column_names df = map cname (columns df)"

text \<open>
  \<open>df.drop(labels, axis=1)\<close>: raises \<open>KeyError\<close> when a label names no column, and
  otherwise removes every column carrying one of the labels.
\<close>

definition drop_columns :: "string list \<Rightarrow> dataframe \<Rightarrow> error + dataframe" where
  "drop_columns labels df =
     (if list_all (\<lambda>l. l \<in> set (column_names df)) labels
      then Inr (df\<lparr>columns := filter (\<lambda>c. cname c \<notin> set labels) (columns df)\<rparr>)
      else Inl KeyError)"

text \<open>
  \<open>df.drop(labels, axis=0)\<close>: raises \<open>KeyError\<close> when a label is not in the index, and
  otherwise removes the rows carrying one of the labels.
\<close>

definition keep_rows :: "int list \<Rightarrow> int list \<Rightarrow> 'a list \<Rightarrow> 'a list" where
  "keep_rows labels idx xs = map snd (filter (\<lambda>p. fst p \<notin> set labels) (zip idx xs))"

definition drop_rows :: "int list \<Rightarrow> dataframe \<Rightarrow> error + dataframe" where
  "drop_rows labels df =
     (if list_all (\<lambda>l. l \<in> set (index df)) labels
      then Inr \<lparr>index = filter (\<lambda>l. l \<notin> set labels) (index df),
                columns = map (\<lambda>c. c\<lparr>cells := keep_rows labels (index df) (cells c)\<rparr>)
                              (columns df)\<rparr>
      else Inl KeyError)"

text \<open>\<open>df[name]\<close>: the column of that name, \<open>KeyError\<close> when there is none.\<close>

definition get_column :: "string \<Rightarrow> dataframe \<Rightarrow> error + column" where
  "get_column name df =
     (case find (\<lambda>c. cname c = name) (columns df) of
        None \<Rightarrow> Inl KeyError
      | Some c \<Rightarrow> Inr c)"

text \<open>
  \<open>df[name] = series\<close>: replaces the column of that name where it is, or appends a new
  column.
\<close>

definition set_column :: "column \<Rightarrow> dataframe \<Rightarrow> dataframe" where
  "set_column s df =
     (if cname s \<in> set (column_names df)
      then df\<lparr>columns := map (\<lambda>c. if cname c = cname s then s else c) (columns df)\<rparr>
      else df\<lparr>columns := columns df @ [s]\<rparr>)"

text \<open>
  \<open>a - b\<close> on two columns of one frame: cell by cell, missing where either cell is
  missing. Subtracting is defined on numeric columns only (\<open>TypeError\<close> on text). The
  result is an integer column when both are, a float column otherwise. The difference of
  two \<open>int64\<close> columns is an \<open>int64\<close>: NumPy wraps it around silently when it leaves
  the range from \<open>-2^63\<close> to \<open>2^63 - 1\<close>.
\<close>

definition int64 :: "int \<Rightarrow> int" where
  "int64 i = (i + 2 ^ 63) mod 2 ^ 64 - 2 ^ 63"

fun sub_cell :: "bool \<Rightarrow> cell \<Rightarrow> cell \<Rightarrow> cell" where
  "sub_cell both_int64 (Num x) (Num y) =
     Num (if both_int64 then real_of_int (int64 (\<lfloor>x\<rfloor> - \<lfloor>y\<rfloor>)) else x - y)"
| "sub_cell both_int64 _ _ = NA"

definition sub_series :: "column \<Rightarrow> column \<Rightarrow> error + column" where
  "sub_series a b =
     (if numeric a \<and> numeric b
      then (let both_int64 = (ctype a = Integer \<and> ctype b = Integer)
            in Inr \<lparr>cname = cname a,
                      ctype = (if both_int64 then Integer else Float),
                      cells = map2 (sub_cell both_int64) (cells a) (cells b)\<rparr>)
      else Inl TypeError)"

text \<open>
  \<open>Series.mode()\<close> ignores missing cells and lists the most frequent values in ascending
  order; row 0 of \<open>DataFrame.mode()\<close> holds the first of them, the smallest most
  frequent value.
\<close>

fun present :: "cell list \<Rightarrow> real list" where
  "present [] = []"
| "present (Num x # cs) = x # present cs"
| "present (_ # cs) = present cs"

definition more_frequent :: "real list \<Rightarrow> real \<Rightarrow> real \<Rightarrow> real" where
  "more_frequent vs x best =
     (if count_list vs best < count_list vs x
         \<or> (count_list vs x = count_list vs best \<and> x < best)
      then x else best)"

fun mode0 :: "real list \<Rightarrow> real option" where
  "mode0 [] = None"
| "mode0 (v # vs) = Some (fold (more_frequent (v # vs)) vs v)"

text \<open>
  \<open>df[cols].mode().to_dict(orient='records')[0]\<close>: the dictionary from each selected
  column to its first mode. The list of records has one entry per row of the frame of
  modes; when no column is selected, or no selected column has a present value, the
  list is empty and the subscript raises \<open>IndexError\<close>.
\<close>

definition mode_record0 :: "column list \<Rightarrow> error + (string \<times> real) list" where
  "mode_record0 cols =
     (if list_all (\<lambda>c. mode0 (present (cells c)) = None) cols then Inl IndexError
      else Inr (List.map_filter
                  (\<lambda>c. case mode0 (present (cells c)) of
                         None \<Rightarrow> None
                       | Some v \<Rightarrow> Some (cname c, v)) cols))"

text \<open>\<open>df.fillna(dict)\<close>: in each column the dictionary names, a missing cell gets the value.\<close>

definition fill_cell :: "real \<Rightarrow> cell \<Rightarrow> cell" where
  "fill_cell v x = (if x = NA then Num v else x)"

definition fillna :: "(string \<times> real) list \<Rightarrow> dataframe \<Rightarrow> dataframe" where
  "fillna d df =
     df\<lparr>columns := map (\<lambda>c. case map_of d (cname c) of
                               None \<Rightarrow> c
                             | Some v \<Rightarrow> c\<lparr>cells := map (fill_cell v) (cells c)\<rparr>)
                        (columns df)\<rparr>"

section \<open>transform_features\<close>

text \<open>
  The first statement group of \<open>transform_features\<close>: the columns whose count of missing
  cells is above \<open>len(df)/20\<close> are dropped.
\<close>

definition drop_missing_cols :: "dataframe \<Rightarrow> string list" where
  "drop_missing_cols df =
     map cname (filter (\<lambda>c. real (len_df df) / 20 < real (isnull_sum c)) (columns df))"

text \<open>The second: the text columns with a missing cell are dropped.\<close>

definition drop_missing_cols_2 :: "dataframe \<Rightarrow> string list" where
  "drop_missing_cols_2 df =
     map cname (filter (\<lambda>c. is_object c \<and> 0 < isnull_sum c) (columns df))"

text \<open>
  The third: the numeric columns with some missing cells, fewer than \<open>len(df)/20\<close>, are
  filled with their mode. When there is no such column the step raises \<open>IndexError\<close>.
\<close>

definition fixable_numeric_cols :: "dataframe \<Rightarrow> column list" where
  "fixable_numeric_cols df =
     filter (\<lambda>c. numeric c \<and> real (isnull_sum c) < real (len_df df) / 20 \<and> 0 < isnull_sum c)
       (columns df)"

definition leak_columns :: "string list" where
  "leak_columns = [''PID'', ''Order'', ''Mo Sold'', ''Sale Condition'', ''Sale Type'',
                   ''Year Built'', ''Year Remod/Add'']"

definition bad_rows :: "int list" where
  "bad_rows = [1702, 2180, 2181]"

definition missing_step :: "dataframe \<Rightarrow> error + dataframe" where
  "missing_step df = drop_columns (drop_missing_cols df) df"

definition text_missing_step :: "dataframe \<Rightarrow> error + dataframe" where
  "text_missing_step df = drop_columns (drop_missing_cols_2 df) df"

definition impute_step :: "dataframe \<Rightarrow> error + dataframe" where
  "impute_step df =
     sum_bind (mode_record0 (fixable_numeric_cols df))
       (\<lambda>replacement_values_dict. Inr (fillna replacement_values_dict df))"

definition derive_step :: "dataframe \<Rightarrow> error + dataframe" where
  "derive_step df =
     sum_bind (get_column ''Yr Sold'' df) (\<lambda>yr_sold.
     sum_bind (get_column ''Year Built'' df) (\<lambda>year_built.
     sum_bind (sub_series yr_sold year_built) (\<lambda>years_sold.
     sum_bind (get_column ''Year Remod/Add'' df) (\<lambda>year_remod.
     sum_bind (sub_series yr_sold year_remod) (\<lambda>years_since_remod.
       Inr (set_column (years_since_remod\<lparr>cname := ''Years Since Remod''\<rparr>)
             (set_column (years_sold\<lparr>cname := ''Years Before Sale''\<rparr>) df)))))))"

definition transform_features :: "dataframe \<Rightarrow> error + dataframe" where
  "transform_features df =
     sum_bind (missing_step df) (\<lambda>df1.
     sum_bind (text_missing_step df1) (\<lambda>df2.
     sum_bind (impute_step df2) (\<lambda>df3.
     sum_bind (derive_step df3) (\<lambda>df4.
     sum_bind (drop_rows bad_rows df4) (\<lambda>df5.
       drop_columns leak_columns df5)))))"

section \<open>select_features\<close>

text \<open>
  \<open>DataFrame.corr()\<close> takes, for each pair of columns, the rows where both are present
  and hands them to the routine \<open>nancorr\<close> of pandas, which computes Pearson's
  coefficient in \<open>float64\<close>, and NaN (here \<open>None\<close>) when the divisor is zero. How the
  routine rounds is not modelled: the routine is an argument, \<open>nancorr\<close>, of every
  function below that calls it.

  \<open>pearson\<close> is the coefficient that the routine approximates, without rounding: with
  the sums of squared deviations \<open>ssqdx\<close>, \<open>ssqdy\<close> and the sum of products \<open>covxy\<close>
  it is \<open>covxy / sqrt (ssqdx * ssqdy)\<close>, and undefined when that divisor is zero (a
  constant column, or fewer than two rows). It stands for the routine in the examples,
  whose coefficients are undefined, 0, 1 or -1: there \<open>float64\<close> arithmetic computes the
  same values, with no rounding at all.
\<close>

type_synonym corr_routine = "(real \<times> real) list \<Rightarrow> real option"

fun paired :: "cell list \<Rightarrow> cell list \<Rightarrow> (real \<times> real) list" where
  "paired (Num x # xs) (Num y # ys) = (x, y) # paired xs ys"
| "paired (_ # xs) (_ # ys) = paired xs ys"
| "paired _ _ = []"

definition mean :: "real list \<Rightarrow> real" where
  "mean xs = sum_list xs / real (length xs)"

definition ssqd :: "real list \<Rightarrow> real" where
  "ssqd xs = sum_list (map (\<lambda>x. (x - mean xs) * (x - mean xs)) xs)"

definition covxy :: "(real \<times> real) list \<Rightarrow> real" where
  "covxy ps =
     sum_list (map (\<lambda>p. (fst p - mean (map fst ps)) * (snd p - mean (map snd ps))) ps)"

definition pearson :: corr_routine where
  "pearson ps =
     (let divisor = sqrt (ssqd (map fst ps) * ssqd (map snd ps))
      in if divisor = 0 then None else Some (covxy ps / divisor))"

text \<open>
  \<open>numerical_df.corr()["SalePrice"].abs()\<close>, one entry per numeric column. A comparison
  with NaN is false, so \<open>abs_corr_coeffs < coeff_threshold\<close> never selects a column whose
  coefficient is undefined.
\<close>

definition abs_corr :: "corr_routine \<Rightarrow> column \<Rightarrow> column \<Rightarrow> real option" where
  "abs_corr nancorr sale_price c = map_option abs (nancorr (paired (cells c) (cells sale_price)))"

definition below :: "real \<Rightarrow> real option \<Rightarrow> bool" where
  "below t r = (case r of None \<Rightarrow> False | Some v \<Rightarrow> v < t)"

definition numerical_df :: "dataframe \<Rightarrow> dataframe" where
  "numerical_df df = df\<lparr>columns := filter numeric (columns df)\<rparr>"

definition abs_corr_coeffs ::
  "corr_routine \<Rightarrow> dataframe \<Rightarrow> error + (string \<times> real option) list" where
  "abs_corr_coeffs nancorr df =
     sum_bind (get_column ''SalePrice'' (numerical_df df)) (\<lambda>sale_price.
       Inr (map (\<lambda>c. (cname c, abs_corr nancorr sale_price c)) (columns (numerical_df df))))"

definition corr_step :: "corr_routine \<Rightarrow> real \<Rightarrow> dataframe \<Rightarrow> error + dataframe" where
  "corr_step nancorr coeff_threshold df =
     sum_bind (abs_corr_coeffs nancorr df) (\<lambda>coeffs.
       drop_columns (map fst (filter (\<lambda>p. below coeff_threshold (snd p)) coeffs)) df)"

definition nominal_features :: "string list" where
  "nominal_features =
     [''PID'', ''MS SubClass'', ''MS Zoning'', ''Street'', ''Alley'', ''Land Contour'',
      ''Lot Config'', ''Neighborhood'', ''Condition 1'', ''Condition 2'', ''Bldg Type'',
      ''House Style'', ''Roof Style'', ''Roof Matl'', ''Exterior 1st'', ''Exterior 2nd'',
      ''Mas Vnr Type'', ''Foundation'', ''Heating'', ''Central Air'', ''Garage Type'',
      ''Misc Feature'', ''Sale Type'', ''Sale Condition'']"

definition transform_cat_cols :: "dataframe \<Rightarrow> string list" where
  "transform_cat_cols df = filter (\<lambda>col. col \<in> set (column_names df)) nominal_features"

text \<open>\<open>len(col.value_counts())\<close>: the number of distinct values, missing cells apart.\<close>

definition uniqueness_count :: "column \<Rightarrow> nat" where
  "uniqueness_count c = length (remdups (filter (\<lambda>v. v \<noteq> NA) (cells c)))"

text \<open>The counts are compared with the literal 10.\<close>

definition drop_nonuniq_cols :: "dataframe \<Rightarrow> string list" where
  "drop_nonuniq_cols df =
     filter (\<lambda>col. case get_column col df of
                     Inl e \<Rightarrow> False
                   | Inr c \<Rightarrow> 10 < uniqueness_count c)
       (transform_cat_cols df)"

definition uniq_step :: "dataframe \<Rightarrow> error + dataframe" where
  "uniq_step df = drop_columns (drop_nonuniq_cols df) df"

text \<open>
  The text columns become categorical; \<open>pd.get_dummies\<close> gives, for each categorical
  column and each of its observed values in ascending order, one \<open>uint8\<close> column named
  \<open>column_value\<close> that is 1 on the rows holding the value and 0 elsewhere (so all 0 on
  a row whose cell is missing).
\<close>

definition text_cols :: "dataframe \<Rightarrow> string list" where
  "text_cols df = map cname (filter is_object (columns df))"

definition astype_category :: "dataframe \<Rightarrow> dataframe" where
  "astype_category df =
     df\<lparr>columns := map (\<lambda>c. if is_object c then c\<lparr>ctype := Category\<rparr> else c) (columns df)\<rparr>"

fun texts :: "cell list \<Rightarrow> string list" where
  "texts [] = []"
| "texts (Str s # cs) = s # texts cs"
| "texts (_ # cs) = texts cs"

definition categories :: "column \<Rightarrow> string list" where
  "categories c = sort (remdups (texts (cells c)))"

definition indicator :: "column \<Rightarrow> string \<Rightarrow> column" where
  "indicator c v =
     \<lparr>cname = cname c @ ''_'' @ v, ctype = Integer,
      cells = map (\<lambda>x. if x = Str v then Num 1 else Num 0) (cells c)\<rparr>"

definition dummies_of :: "column \<Rightarrow> column list" where
  "dummies_of c = map (indicator c) (categories c)"

text \<open>
  \<open>pd.get_dummies\<close> concatenates the indicator frames of the columns it is given; handed
  a frame without any column to encode, it has nothing to concatenate and raises
  \<open>ValueError\<close>.
\<close>

definition get_dummies :: "dataframe \<Rightarrow> error + column list" where
  "get_dummies df =
     (let data_to_encode = filter (\<lambda>c. ctype c = Category) (columns df)
      in if data_to_encode = [] then Inl ValueError
         else Inr (concat (map dummies_of data_to_encode)))"

text \<open>
  \<open>pd.concat([df, dummies], axis=1).drop(text_cols, axis=1)\<close>: the indicator columns are
  appended, then every column that carries the name of a text column is dropped.
\<close>

definition encode_step :: "dataframe \<Rightarrow> error + dataframe" where
  "encode_step df =
     (let df_cat = astype_category df
      in sum_bind (get_dummies df_cat) (\<lambda>dummies.
           drop_columns (text_cols df) (df_cat\<lparr>columns := columns df_cat @ dummies\<rparr>)))"

text \<open>
  \<open>select_features(df, coeff_threshold, uniq_threshold)\<close>, with the correlation routine
  of pandas as its first argument here. The body never reads \<open>uniq_threshold\<close>.
\<close>

definition select_features ::
  "corr_routine \<Rightarrow> dataframe \<Rightarrow> real \<Rightarrow> int \<Rightarrow> error + dataframe" where
  "select_features nancorr df coeff_threshold uniq_threshold =
     sum_bind (corr_step nancorr coeff_threshold df) (\<lambda>df1.
     sum_bind (uniq_step df1) (\<lambda>df2.
       encode_step df2))"

section \<open>LinearRegression and mean_squared_error\<close>

text \<open>
  scikit-learn validates what it is given before it computes: \<open>check_array\<close> raises
  \<open>ValueError\<close> on a matrix with no row, with no column, or with a missing entry, in
  \<open>fit\<close>, in \<open>predict\<close> and in \<open>mean_squared_error\<close> alike. A matrix is the list of
  its columns.
\<close>

fun number :: "cell \<Rightarrow> real option" where
  "number (Num x) = Some x"
| "number _ = None"

definition numbers :: "cell list \<Rightarrow> real list option" where
  "numbers cs = (if list_all (\<lambda>c. number c \<noteq> None) cs then Some (map (\<lambda>c. the (number c)) cs)
                 else None)"

definition check_vector :: "cell list \<Rightarrow> error + real list" where
  "check_vector cs =
     (case numbers cs of
        None \<Rightarrow> Inl ValueError
      | Some v \<Rightarrow> if v = [] then Inl ValueError else Inr v)"

definition check_array :: "nat \<Rightarrow> cell list list \<Rightarrow> error + real list list" where
  "check_array n_samples cols =
     (if cols = [] \<or> n_samples = 0 \<or> list_ex (\<lambda>cs. numbers cs = None) cols
      then Inl ValueError
      else Inr (map (\<lambda>cs. the (numbers cs)) cols))"

text \<open>
  \<open>LinearRegression.fit\<close> centres the columns and the target, takes the least-squares
  solution of minimum norm for the coefficients (\<open>scipy.linalg.lstsq\<close>, that is the
  pseudo-inverse of the centred matrix applied to the centred target), and sets the
  intercept from the means. The pseudo-inverse is computed column by column (Greville's
  recursion), in exact arithmetic.
\<close>

definition dot :: "real list \<Rightarrow> real list \<Rightarrow> real" where
  "dot a b = sum_list (map2 (*) a b)"

definition scale :: "real \<Rightarrow> real list \<Rightarrow> real list" where
  "scale k a = map ((*) k) a"

definition lincomb :: "nat \<Rightarrow> real list \<Rightarrow> real list list \<Rightarrow> real list" where
  "lincomb m ds vs = foldr (\<lambda>p acc. map2 (+) (scale (fst p) (snd p)) acc) (zip ds vs) (replicate m 0)"

definition greville_step ::
  "real list \<Rightarrow> real list list \<times> real list list \<Rightarrow> real list list \<times> real list list" where
  "greville_step a AP =
     (let A = fst AP; P = snd AP; m = length a;
          d = map (\<lambda>r. dot r a) P;
          c = map2 (-) a (lincomb m d A);
          b = (if list_all (\<lambda>x. x = 0) c
               then scale (1 / (1 + dot d d)) (lincomb m d P)
               else scale (1 / dot c c) c)
      in (A @ [a], map2 (\<lambda>r di. map2 (-) r (scale di b)) P d @ [b]))"

definition pinv :: "real list list \<Rightarrow> real list list" where
  "pinv cols = snd (fold greville_step cols ([], []))"

definition lstsq :: "real list list \<Rightarrow> real list \<Rightarrow> real list" where
  "lstsq cols y = map (\<lambda>r. dot r y) (pinv cols)"

record linear_model =
  coef :: "real list"
  intercept :: real

definition centre :: "real list \<Rightarrow> real list" where
  "centre xs = map (\<lambda>x. x - mean xs) xs"

definition fit :: "nat \<Rightarrow> cell list list \<Rightarrow> cell list \<Rightarrow> error + linear_model" where
  "fit n_samples X y =
     sum_bind (check_array n_samples X) (\<lambda>cols.
     sum_bind (check_vector y) (\<lambda>target.
       (let w = lstsq (map centre cols) (centre target)
        in Inr \<lparr>coef = w, intercept = mean target - dot (map mean cols) w\<rparr>)))"

definition predict :: "linear_model \<Rightarrow> nat \<Rightarrow> cell list list \<Rightarrow> error + real list" where
  "predict lr n_samples X =
     sum_bind (check_array n_samples X) (\<lambda>cols.
       Inr (map (\<lambda>v. v + intercept lr) (lincomb n_samples (coef lr) cols)))"

definition mean_squared_error :: "cell list \<Rightarrow> real list \<Rightarrow> error + real" where
  "mean_squared_error y_true y_pred =
     sum_bind (check_vector y_true) (\<lambda>target.
       Inr (mean (map2 (\<lambda>t p. (t - p) * (t - p)) target y_pred)))"

section \<open>train_and_test\<close>

text \<open>
  \<open>numeric_df.columns.drop("SalePrice")\<close>: the names of the numeric columns without
  \<open>SalePrice\<close>, and \<open>KeyError\<close> when no numeric column has that name.
\<close>

definition feature_names :: "dataframe \<Rightarrow> error + string list" where
  "feature_names df =
     (if ''SalePrice'' \<in> set (column_names (numerical_df df))
      then Inr (filter (\<lambda>name. name \<noteq> ''SalePrice'') (column_names (numerical_df df)))
      else Inl KeyError)"

text \<open>
  \<open>df[:n]\<close>, \<open>df[n:]\<close> and \<open>df.iloc[positions]\<close>: rows by position. The positions
  handed to \<open>iloc\<close> are those of \<open>KFold\<close>, all below \<open>len(df)\<close>.
\<close>

definition head_rows :: "nat \<Rightarrow> dataframe \<Rightarrow> dataframe" where
  "head_rows n df =
     \<lparr>index = take n (index df),
      columns = map (\<lambda>c. c\<lparr>cells := take n (cells c)\<rparr>) (columns df)\<rparr>"

definition tail_rows :: "nat \<Rightarrow> dataframe \<Rightarrow> dataframe" where
  "tail_rows n df =
     \<lparr>index = drop n (index df),
      columns = map (\<lambda>c. c\<lparr>cells := drop n (cells c)\<rparr>) (columns df)\<rparr>"

definition iloc :: "nat list \<Rightarrow> dataframe \<Rightarrow> dataframe" where
  "iloc positions df =
     \<lparr>index = map (\<lambda>i. index df ! i) positions,
      columns = map (\<lambda>c. c\<lparr>cells := map (\<lambda>i. cells c ! i) positions\<rparr>) (columns df)\<rparr>"

text \<open>\<open>df[features]\<close>, as the matrix handed to scikit-learn.\<close>

definition feature_matrix :: "string list \<Rightarrow> dataframe \<Rightarrow> cell list list" where
  "feature_matrix features df =
     concat (map (\<lambda>name. map cells (filter (\<lambda>c. cname c = name) (columns df))) features)"

text \<open>
  One round: fit on \<open>train\<close>, predict on \<open>test\<close>, and take the square root of the mean
  squared error.
\<close>

definition fit_mse :: "string list \<Rightarrow> dataframe \<Rightarrow> dataframe \<Rightarrow> error + real" where
  "fit_mse features train test =
     sum_bind (get_column ''SalePrice'' train) (\<lambda>y_train.
     sum_bind (fit (len_df train) (feature_matrix features train) (cells y_train)) (\<lambda>lr.
     sum_bind (predict lr (len_df test) (feature_matrix features test)) (\<lambda>predictions.
     sum_bind (get_column ''SalePrice'' test) (\<lambda>y_test.
       mean_squared_error (cells y_test) predictions))))"

definition fit_rmse :: "string list \<Rightarrow> dataframe \<Rightarrow> dataframe \<Rightarrow> error + real" where
  "fit_rmse features train test =
     sum_bind (fit_mse features train test) (\<lambda>mse. Inr (sqrt mse))"

text \<open>
  \<open>KFold(n_splits=k, shuffle=True).split(df)\<close>: \<open>ValueError\<close> unless \<open>2 \<le> k \<le> len(df)\<close>.
  The row positions are shuffled and cut into \<open>k\<close> consecutive folds, the first
  \<open>len(df) mod k\<close> of them one longer; each fold is the test set once, through a mask, so
  that test and train positions come out in ascending order. The shuffled positions come
  from NumPy's global random state; they are an argument here.
\<close>

definition fold_sizes :: "nat \<Rightarrow> nat \<Rightarrow> nat list" where
  "fold_sizes n k = map (\<lambda>i. n div k + (if i < n mod k then 1 else 0)) [0..<k]"

fun cut :: "nat list \<Rightarrow> 'a list \<Rightarrow> 'a list list" where
  "cut [] xs = []"
| "cut (s # ss) xs = take s xs # cut ss (drop s xs)"

definition test_index :: "nat \<Rightarrow> nat list \<Rightarrow> nat list" where
  "test_index n test_fold = filter (\<lambda>i. i \<in> set test_fold) [0..<n]"

definition train_index :: "nat \<Rightarrow> nat list \<Rightarrow> nat list" where
  "train_index n test_fold = filter (\<lambda>i. i \<notin> set test_fold) [0..<n]"

definition kfold_split :: "int \<Rightarrow> nat \<Rightarrow> nat list \<Rightarrow> error + (nat list \<times> nat list) list" where
  "kfold_split k n shuffled =
     (if k \<le> 1 \<or> int n < k then Inl ValueError
      else Inr (map (\<lambda>test_fold. (train_index n test_fold, test_index n test_fold))
                  (cut (fold_sizes n (nat k)) shuffled)))"

fun kfold_rmse_values ::
  "string list \<Rightarrow> dataframe \<Rightarrow> (nat list \<times> nat list) list \<Rightarrow> error + real list" where
  "kfold_rmse_values features df [] = Inr []"
| "kfold_rmse_values features df (split # splits) =
     sum_bind (fit_rmse features (iloc (fst split) df) (iloc (snd split) df)) (\<lambda>rmse.
     sum_bind (kfold_rmse_values features df splits) (\<lambda>rmse_values.
       Inr (rmse # rmse_values)))"

text \<open>
  \<open>train_and_test(df, k)\<close>. The third argument is the order of the row positions that the
  random state gives the call: \<open>df.sample(frac=1)\<close> draws it when \<open>k = 1\<close>, \<open>KFold\<close> when
  \<open>k\<close> is neither 0 nor 1. The shuffled copy of the \<open>k = 1\<close> branch is bound and never
  read. (The older copy of the notebook creates the model as
  \<open>linear_model.LinearRegression()\<close>, the newer one as \<open>LinearRegression()\<close>, the name
  the notebook imports; the function is the same otherwise.)
\<close>

definition train_and_test :: "dataframe \<Rightarrow> int \<Rightarrow> nat list \<Rightarrow> error + real" where
  "train_and_test df k shuffled =
     sum_bind (feature_names df) (\<lambda>features.
       if k = 0 then
         (let train = head_rows 1460 df; test = tail_rows 1460 df
          in fit_rmse features train test)
       else if k = 1 then
         (let shuffled_df = iloc shuffled df;
              train = head_rows 1460 df; test = tail_rows 1460 df
          in sum_bind (fit_rmse features train test) (\<lambda>rmse_one.
             sum_bind (fit_rmse features test train) (\<lambda>rmse_two.
               Inr (mean [rmse_one, rmse_two]))))
       else
         sum_bind (kfold_split k (len_df df) shuffled) (\<lambda>splits.
         sum_bind (kfold_rmse_values features df splits) (\<lambda>rmse_values.
           Inr (mean rmse_values))))"

section \<open>Properties of tables\<close>

text \<open>
  A table is complete when its column names are distinct, every column has one cell per
  row, and no numeric column has a missing cell.
\<close>

definition complete :: "dataframe \<Rightarrow> bool" where
  "complete df =
     (distinct (column_names df) \<and>
      list_all (\<lambda>c. length (cells c) = len_df df) (columns df) \<and>
      list_all (\<lambda>c. numbers (cells c) \<noteq> None) (filter numeric (columns df)))"

definition is_text :: "cell \<Rightarrow> bool" where
  "is_text v = (case v of Str s \<Rightarrow> True | _ \<Rightarrow> False)"

text \<open>
  A table is regular when every column has one cell per row, no column is categorical
  (\<open>read_csv\<close> makes none), and the cells of its numeric columns are numbers or missing.
\<close>

definition regular :: "dataframe \<Rightarrow> bool" where
  "regular df =
     (list_all (\<lambda>c. length (cells c) = len_df df \<and> ctype c \<noteq> Category) (columns df) \<and>
      list_all (\<lambda>c. list_all (\<lambda>v. \<not> is_text v) (cells c)) (filter numeric (columns df)))"

definition no_missing :: "column \<Rightarrow> bool" where
  "no_missing c = (NA \<notin> set (cells c))"

text \<open>
  A year is not before another when both are present and the first is at least the
  second; for two \<open>int64\<close> columns, when moreover their difference is in the range of
  \<open>int64\<close>. In a table, two columns of years are in order off the listed rows when this
  holds in every row whose label is not 1702, 2180 or 2181.
\<close>

fun not_before :: "bool \<Rightarrow> cell \<Rightarrow> cell \<Rightarrow> bool" where
  "not_before both_int64 (Num x) (Num y) =
     (if both_int64 then \<lfloor>y\<rfloor> \<le> \<lfloor>x\<rfloor> \<and> \<lfloor>x\<rfloor> - \<lfloor>y\<rfloor> < 2 ^ 63 else y \<le> x)"
| "not_before both_int64 _ _ = False"

definition in_order_off_listed_rows :: "dataframe \<Rightarrow> column \<Rightarrow> column \<Rightarrow> bool" where
  "in_order_off_listed_rows df later earlier =
     list_all (\<lambda>(l, x, y). l = 1702 \<or> l = 2180 \<or> l = 2181 \<or>
                 not_before (ctype later = Integer \<and> ctype earlier = Integer) x y)
       (zip (index df) (zip (cells later) (cells earlier)))"

fun non_negative :: "cell \<Rightarrow> bool" where
  "non_negative (Num x) = (0 \<le> x)"
| "non_negative _ = False"

text \<open>\<open>df.iloc[i]\<close>: the label and the cells of the row at position \<open>i\<close>.\<close>

definition row :: "nat \<Rightarrow> dataframe \<Rightarrow> int \<times> (string \<times> cell) list" where
  "row i df = (index df ! i, map (\<lambda>c. (cname c, cells c ! i)) (columns df))"

text \<open>The sum of row \<open>i\<close> over some columns.\<close>

definition cell_value :: "cell \<Rightarrow> real" where
  "cell_value v = (case v of Num x \<Rightarrow> x | _ \<Rightarrow> 0)"

definition row_sum :: "nat \<Rightarrow> column list \<Rightarrow> real" where
  "row_sum i cols = sum_list (map (\<lambda>d. cell_value (cells d ! i)) cols)"

text \<open>\<open>df.isnull().sum()\<close>, and the same counts as fractions of the number of rows.\<close>

definition null_counts :: "dataframe \<Rightarrow> (string \<times> nat) list" where
  "null_counts df = map (\<lambda>c. (cname c, isnull_sum c)) (columns df)"

definition missing_fractions :: "dataframe \<Rightarrow> (string \<times> real) list" where
  "missing_fractions df =
     map (\<lambda>c. (cname c, real (isnull_sum c) / real (len_df df))) (columns df)"

section \<open>Example tables\<close>

text \<open>
  Forty rows of a larger table: the row labelled 1702 and the rows labelled 2180 to
  2218. \<open>Lot Frontage\<close> is missing in the last two rows, that is in exactly 5% of the
  forty; \<open>Mas Vnr Area\<close> is missing in the last row.
\<close>

definition boundary_df :: dataframe where
  "boundary_df =
     \<lparr>index = 1702 # map int [2180..<2219],
      columns =
        [\<lparr>cname = ''Order'', ctype = Integer, cells = replicate 40 (Num 1)\<rparr>,
         \<lparr>cname = ''PID'', ctype = Integer, cells = replicate 40 (Num 526301100)\<rparr>,
         \<lparr>cname = ''Lot Frontage'', ctype = Float, cells = replicate 38 (Num 60) @ [NA, NA]\<rparr>,
         \<lparr>cname = ''Mas Vnr Area'', ctype = Float, cells = replicate 39 (Num 0) @ [NA]\<rparr>,
         \<lparr>cname = ''Year Built'', ctype = Integer, cells = replicate 40 (Num 2000)\<rparr>,
         \<lparr>cname = ''Year Remod/Add'', ctype = Integer, cells = replicate 40 (Num 2005)\<rparr>,
         \<lparr>cname = ''Mo Sold'', ctype = Integer, cells = replicate 40 (Num 5)\<rparr>,
         \<lparr>cname = ''Yr Sold'', ctype = Integer, cells = replicate 40 (Num 2010)\<rparr>,
         \<lparr>cname = ''Sale Type'', ctype = Object, cells = replicate 40 (Str ''WD'')\<rparr>,
         \<lparr>cname = ''Sale Condition'', ctype = Object, cells = replicate 40 (Str ''Normal'')\<rparr>,
         \<lparr>cname = ''SalePrice'', ctype = Integer, cells = replicate 40 (Num 215000)\<rparr>]\<rparr>"

text \<open>
  Twenty-one rows of a larger table: the rows labelled 1701 and 1702 and the rows
  labelled 2180 to 2198. The row labelled 1701 was sold in 2007, built in 2008 and
  remodelled in 2009. \<open>Mas Vnr Area\<close> is missing in the last row.
\<close>

definition negative_age_df :: dataframe where
  "negative_age_df =
     \<lparr>index = 1701 # 1702 # map int [2180..<2199],
      columns =
        [\<lparr>cname = ''Order'', ctype = Integer, cells = replicate 21 (Num 1)\<rparr>,
         \<lparr>cname = ''PID'', ctype = Integer, cells = replicate 21 (Num 526301100)\<rparr>,
         \<lparr>cname = ''Mas Vnr Area'', ctype = Float, cells = replicate 20 (Num 0) @ [NA]\<rparr>,
         \<lparr>cname = ''Year Built'', ctype = Integer,
          cells = Num 2008 # replicate 20 (Num 2000)\<rparr>,
         \<lparr>cname = ''Year Remod/Add'', ctype = Integer,
          cells = Num 2009 # replicate 20 (Num 2005)\<rparr>,
         \<lparr>cname = ''Mo Sold'', ctype = Integer, cells = replicate 21 (Num 5)\<rparr>,
         \<lparr>cname = ''Yr Sold'', ctype = Integer,
          cells = Num 2007 # replicate 20 (Num 2010)\<rparr>,
         \<lparr>cname = ''Sale Type'', ctype = Object, cells = replicate 21 (Str ''WD'')\<rparr>,
         \<lparr>cname = ''Sale Condition'', ctype = Object, cells = replicate 21 (Str ''Normal'')\<rparr>,
         \<lparr>cname = ''SalePrice'', ctype = Integer, cells = replicate 21 (Num 215000)\<rparr>]\<rparr>"

definition negative_age_out :: dataframe where
  "negative_age_out =
     \<lparr>index = 1701 # map int [2182..<2199],
      columns =
        [\<lparr>cname = ''Mas Vnr Area'', ctype = Float, cells = replicate 18 (Num 0)\<rparr>,
         \<lparr>cname = ''Yr Sold'', ctype = Integer,
          cells = Num 2007 # replicate 17 (Num 2010)\<rparr>,
         \<lparr>cname = ''SalePrice'', ctype = Integer, cells = replicate 18 (Num 215000)\<rparr>,
         \<lparr>cname = ''Years Before Sale'', ctype = Integer,
          cells = Num (- 1) # replicate 17 (Num 10)\<rparr>,
         \<lparr>cname = ''Years Since Remod'', ctype = Integer,
          cells = Num (- 2) # replicate 17 (Num 5)\<rparr>]\<rparr>"

text \<open>
  Twenty-one rows of a larger table, with the same labels. The rows labelled 1702, 2180
  and 2181 have the years of the notebook's data: sold in 2007, built in 2007, 2008 and
  2007, remodelled in 2008, 2009 and 2008. In every other row the sale is the last of
  the three years.
\<close>

definition yr_sold_21 :: column where
  "yr_sold_21 = \<lparr>cname = ''Yr Sold'', ctype = Integer,
     cells = [Num 2010, Num 2007, Num 2007, Num 2007] @ replicate 17 (Num 2010)\<rparr>"

definition year_built_21 :: column where
  "year_built_21 = \<lparr>cname = ''Year Built'', ctype = Integer,
     cells = [Num 2000, Num 2007, Num 2008, Num 2007] @ replicate 17 (Num 2000)\<rparr>"

definition year_remod_21 :: column where
  "year_remod_21 = \<lparr>cname = ''Year Remod/Add'', ctype = Integer,
     cells = [Num 2005, Num 2008, Num 2009, Num 2008] @ replicate 17 (Num 2005)\<rparr>"

definition late_remod_df :: dataframe where
  "late_remod_df =
     \<lparr>index = 1701 # 1702 # map int [2180..<2199],
      columns =
        [\<lparr>cname = ''Order'', ctype = Integer, cells = replicate 21 (Num 1)\<rparr>,
         \<lparr>cname = ''PID'', ctype = Integer, cells = replicate 21 (Num 526301100)\<rparr>,
         \<lparr>cname = ''Mas Vnr Area'', ctype = Float, cells = replicate 20 (Num 0) @ [NA]\<rparr>,
         year_built_21, year_remod_21,
         \<lparr>cname = ''Mo Sold'', ctype = Integer, cells = replicate 21 (Num 5)\<rparr>,
         yr_sold_21,
         \<lparr>cname = ''Sale Type'', ctype = Object, cells = replicate 21 (Str ''WD'')\<rparr>,
         \<lparr>cname = ''Sale Condition'', ctype = Object, cells = replicate 21 (Str ''Normal'')\<rparr>,
         \<lparr>cname = ''SalePrice'', ctype = Integer, cells = replicate 21 (Num 215000)\<rparr>]\<rparr>"

definition late_remod_out :: dataframe where
  "late_remod_out =
     \<lparr>index = 1701 # map int [2182..<2199],
      columns =
        [\<lparr>cname = ''Mas Vnr Area'', ctype = Float, cells = replicate 18 (Num 0)\<rparr>,
         \<lparr>cname = ''Yr Sold'', ctype = Integer, cells = replicate 18 (Num 2010)\<rparr>,
         \<lparr>cname = ''SalePrice'', ctype = Integer, cells = replicate 18 (Num 215000)\<rparr>,
         \<lparr>cname = ''Years Before Sale'', ctype = Integer, cells = replicate 18 (Num 10)\<rparr>,
         \<lparr>cname = ''Years Since Remod'', ctype = Integer, cells = replicate 18 (Num 5)\<rparr>]\<rparr>"

text \<open>Two rows with a nominal column of two distinct values.\<close>

definition street :: column where
  "street = \<lparr>cname = ''Street'', ctype = Object, cells = [Str ''Pave'', Str ''Grvl'']\<rparr>"

definition sale_price_13 :: column where
  "sale_price_13 = \<lparr>cname = ''SalePrice'', ctype = Integer, cells = [Num 1, Num 3]\<rparr>"

definition street_df :: dataframe where
  "street_df = \<lparr>index = [0, 1], columns = [street, sale_price_13]\<rparr>"

definition street_out :: dataframe where
  "street_out =
     \<lparr>index = [0, 1],
      columns =
        [\<lparr>cname = ''SalePrice'', ctype = Integer, cells = [Num 1, Num 3]\<rparr>,
         \<lparr>cname = ''Street_Grvl'', ctype = Integer, cells = [Num 0, Num 1]\<rparr>,
         \<lparr>cname = ''Street_Pave'', ctype = Integer, cells = [Num 1, Num 0]\<rparr>]\<rparr>"

text \<open>
  Two rows with two text columns, the second of which is named as the first column's
  indicator of the value \<open>x\<close>.
\<close>

definition collision_df :: dataframe where
  "collision_df =
     \<lparr>index = [0, 1],
      columns =
        [\<lparr>cname = ''A'', ctype = Object, cells = [Str ''x'', Str ''y'']\<rparr>,
         \<lparr>cname = ''A_x'', ctype = Object, cells = [Str ''p'', Str ''q'']\<rparr>,
         sale_price_13]\<rparr>"

text \<open>
  Three rows with a constant numeric column, one uncorrelated with the price, and one
  that falls as the price rises.
\<close>

definition pool_area :: column where
  "pool_area = \<lparr>cname = ''Pool Area'', ctype = Integer, cells = [Num 0, Num 0, Num 0]\<rparr>"

definition misc_val :: column where
  "misc_val = \<lparr>cname = ''Misc Val'', ctype = Integer, cells = [Num 1, Num 0, Num 1]\<rparr>"

definition sale_price_123 :: column where
  "sale_price_123 = \<lparr>cname = ''SalePrice'', ctype = Integer, cells = [Num 1, Num 2, Num 3]\<rparr>"

definition overall_cond :: column where
  "overall_cond = \<lparr>cname = ''Overall Cond'', ctype = Integer, cells = [Num 3, Num 2, Num 1]\<rparr>"

definition constant_df :: dataframe where
  "constant_df =
     \<lparr>index = [0, 1, 2], columns = [pool_area, misc_val, overall_cond, sale_price_123]\<rparr>"

text \<open>Four rows with one feature, for two folds.\<close>

definition kfold_df :: dataframe where
  "kfold_df =
     \<lparr>index = [0, 1, 2, 3],
      columns =
        [\<lparr>cname = ''Gr Liv Area'', ctype = Integer, cells = [Num 0, Num 1, Num 2, Num 3]\<rparr>,
         \<lparr>cname = ''SalePrice'', ctype = Integer, cells = [Num 0, Num 0, Num 2, Num 2]\<rparr>]\<rparr>"

text \<open>Four rows with one feature and the same price in every row.\<close>

definition constant_target_df :: dataframe where
  "constant_target_df =
     \<lparr>index = [0, 1, 2, 3],
      columns =
        [\<lparr>cname = ''Gr Liv Area'', ctype = Integer, cells = [Num 1, Num 2, Num 3, Num 4]\<rparr>,
         \<lparr>cname = ''SalePrice'', ctype = Integer, cells = [Num 5, Num 5, Num 5, Num 5]\<rparr>]\<rparr>"

text \<open>A table whose only numeric column is the price.\<close>

definition only_price_df :: dataframe where
  "only_price_df =
     \<lparr>index = [0, 1, 2, 3],
      columns =
        [\<lparr>cname = ''Street'', ctype = Object,
          cells = [Str ''Pave'', Str ''Grvl'', Str ''Pave'', Str ''Pave'']\<rparr>,
         \<lparr>cname = ''SalePrice'', ctype = Integer, cells = [Num 1, Num 2, Num 3, Num 4]\<rparr>]\<rparr>"

text \<open>A table of 1461 rows whose only column is the price.\<close>

definition long_price_df :: dataframe where
  "long_price_df =
     \<lparr>index = map int [0..<1461],
      columns = [\<lparr>cname = ''SalePrice'', ctype = Integer, cells = replicate 1461 (Num 100000)\<rparr>]\<rparr>"

text \<open>A table of 1462 rows with the default index.\<close>

definition holdout_df :: dataframe where
  "holdout_df =
     \<lparr>index = map int [0..<1462],
      columns =
        [\<lparr>cname = ''Gr Liv Area'', ctype = Integer,
          cells = replicate 1460 (Num 1000) @ [Num 1500, Num 2000]\<rparr>,
         \<lparr>cname = ''SalePrice'', ctype = Integer,
          cells = replicate 1460 (Num 100000) @ [Num 150000, Num 200000]\<rparr>]\<rparr>"

section \<open>Basic facts\<close>

lemma sum_bind_Inl [simp]: "sum_bind (Inl e) f = Inl e"
  by (simp add: sum_bind_def)

lemma sum_bind_Inr [simp]: "sum_bind (Inr x) f = f x"
  by (simp add: sum_bind_def)

lemma sum_bind_eq_Inr: "sum_bind m f = Inr y \<Longrightarrow> \<exists>x. m = Inr x \<and> f x = Inr y"
  by (cases m) simp_all

lemma same_name_same_column:
  "distinct (map cname cs) \<Longrightarrow> c \<in> set cs \<Longrightarrow> c' \<in> set cs \<Longrightarrow> cname c = cname c' \<Longrightarrow> c = c'"
  by (auto simp: distinct_map dest: inj_onD)

lemma drop_columns_index: "drop_columns labels df = Inr out \<Longrightarrow> index out = index df"
  by (auto simp: drop_columns_def split: if_splits)

lemma fillna_index [simp]: "index (fillna d df) = index df"
  by (simp add: fillna_def)

lemma set_column_index [simp]: "index (set_column s df) = index df"
  by (simp add: set_column_def)

lemma drop_rows_index:
  "drop_rows labels df = Inr out \<Longrightarrow>
     list_all (\<lambda>l. l \<in> set (index df)) labels \<and>
     index out = filter (\<lambda>l. l \<notin> set labels) (index df)"
  by (auto simp: drop_rows_def split: if_splits)

section \<open>Missing values in transform_features\<close>

text \<open>
  What the first step does ensure: it always succeeds, and a column it keeps has at most
  \<open>len(df)/20\<close> missing cells, the bound included.
\<close>

lemma missing_step_bound:
  assumes "missing_step df = Inr out" and "c \<in> set (columns out)"
  shows "real (isnull_sum c) \<le> real (len_df df) / 20"
proof -
  have "list_all (\<lambda>l. l \<in> set (column_names df)) (drop_missing_cols df)"
    by (auto simp: list_all_iff drop_missing_cols_def column_names_def)
  with assms(1) have "columns out = filter (\<lambda>c. cname c \<notin> set (drop_missing_cols df)) (columns df)"
    by (auto simp: missing_step_def drop_columns_def)
  with assms(2) have "c \<in> set (columns df)" "cname c \<notin> set (drop_missing_cols df)"
    by simp_all
  then show ?thesis
    by (auto simp: drop_missing_cols_def)
qed

lemma isnull_sum_zero: "isnull_sum c = 0 \<longleftrightarrow> no_missing c"
  by (auto simp: isnull_sum_def no_missing_def filter_empty_conv)

lemma present_Nil: "present cs = [] \<longleftrightarrow> list_all (\<lambda>v. v = NA \<or> is_text v) cs"
  by (induction cs rule: present.induct) (simp_all add: is_text_def)

lemma mode0_None: "mode0 vs = None \<longleftrightarrow> vs = []"
  by (cases vs) simp_all

lemma all_NA_count:
  "list_all (\<lambda>v. v = NA) cs \<Longrightarrow> length (filter (\<lambda>v. v = NA) cs) = length cs"
  by (induction cs) simp_all

lemma fixable_has_mode:
  assumes "list_all (\<lambda>v. \<not> is_text v) (cells c)" "isnull_sum c < length (cells c)"
  shows "\<exists>v. mode0 (present (cells c)) = Some v"
proof (cases "mode0 (present (cells c))")
  case None
  then have "list_all (\<lambda>v. v = NA \<or> is_text v) (cells c)"
    by (simp add: mode0_None present_Nil)
  with assms(1) have "list_all (\<lambda>v. v = NA) (cells c)"
    by (auto simp: list_all_iff)
  from all_NA_count [OF this] assms(2) show ?thesis
    by (simp add: isnull_sum_def)
next
  case (Some v)
  then show ?thesis by simp
qed

lemma no_missing_fill: "no_missing (c\<lparr>cells := map (fill_cell v) (cells c)\<rparr>)"
  by (auto simp: no_missing_def fill_cell_def)

lemma map_of_map_filter:
  assumes "c \<in> set cols" "f c = Some v"
  shows "\<exists>w. map_of (List.map_filter (\<lambda>c. case f c of None \<Rightarrow> None | Some v \<Rightarrow> Some (g c, v)) cols) (g c) = Some w"
proof -
  have "(g c, v) \<in> set (List.map_filter (\<lambda>c. case f c of None \<Rightarrow> None | Some v \<Rightarrow> Some (g c, v)) cols)"
    using assms by (auto simp: map_filter_def intro!: image_eqI [where x = c])
  then show ?thesis
    by (metis weak_map_of_SomeI)
qed


lemma drop_columns_Inr:
  "drop_columns labels df = Inr out \<Longrightarrow>
     index out = index df \<and> columns out = filter (\<lambda>c. cname c \<notin> set labels) (columns df)"
  by (auto simp: drop_columns_def split: if_splits)

lemma cell_kinds: "\<not> is_text v \<Longrightarrow> v \<noteq> NA \<Longrightarrow> \<exists>x. v = Num x"
  by (cases v) (simp_all add: is_text_def)

lemma missing_step_regular:
  assumes "missing_step df = Inr df1" and "regular df"
    and "list_all (\<lambda>c. real (isnull_sum c) \<noteq> real (len_df df) / 20) (filter numeric (columns df))"
  shows "regular df1 \<and>
         list_all (\<lambda>c. real (isnull_sum c) < real (len_df df1) / 20) (filter numeric (columns df1))"
proof -
  from assms(1) have i: "index df1 = index df"
    and c: "columns df1 = filter (\<lambda>c. cname c \<notin> set (drop_missing_cols df)) (columns df)"
    unfolding missing_step_def by (auto dest: drop_columns_Inr)
  have "regular df1"
    using assms(2) by (auto simp: regular_def list_all_iff c len_df_def i)
  moreover have "real (isnull_sum x) < real (len_df df1) / 20"
    if "x \<in> set (columns df1)" "numeric x" for x
  proof -
    from that c have x: "x \<in> set (columns df)" "cname x \<notin> set (drop_missing_cols df)"
      by simp_all
    then have "\<not> real (len_df df) / 20 < real (isnull_sum x)"
      by (auto simp: drop_missing_cols_def)
    moreover from x(1) that(2) assms(3) have "real (isnull_sum x) \<noteq> real (len_df df) / 20"
      by (auto simp: list_all_iff)
    ultimately show ?thesis
      by (simp add: len_df_def i)
  qed
  ultimately show ?thesis
    by (auto simp: list_all_iff)
qed

lemma text_missing_step_regular:
  assumes "text_missing_step df1 = Inr df2" and "regular df1"
    and "list_all (\<lambda>c. real (isnull_sum c) < real (len_df df1) / 20) (filter numeric (columns df1))"
  shows "regular df2 \<and>
         list_all (\<lambda>c. real (isnull_sum c) < real (len_df df2) / 20) (filter numeric (columns df2)) \<and>
         list_all no_missing (filter is_object (columns df2))"
proof -
  from assms(1) have i: "index df2 = index df1"
    and c: "columns df2 = filter (\<lambda>c. cname c \<notin> set (drop_missing_cols_2 df1)) (columns df1)"
    unfolding text_missing_step_def by (auto dest: drop_columns_Inr)
  have "regular df2"
    using assms(2) by (auto simp: regular_def list_all_iff c len_df_def i)
  moreover have "list_all (\<lambda>c. real (isnull_sum c) < real (len_df df2) / 20)
                   (filter numeric (columns df2))"
    using assms(3) by (auto simp: list_all_iff c len_df_def i)
  moreover have "no_missing x" if "x \<in> set (columns df2)" "is_object x" for x
  proof -
    from that c have "x \<in> set (columns df1)" "cname x \<notin> set (drop_missing_cols_2 df1)"
      by simp_all
    with that(2) have "isnull_sum x = 0"
      by (auto simp: drop_missing_cols_2_def)
    then show ?thesis by (simp add: isnull_sum_zero)
  qed
  ultimately show ?thesis
    by (auto simp: list_all_iff)
qed

lemma impute_step_fills:
  assumes "impute_step df2 = Inr df3" and "regular df2"
    and "list_all (\<lambda>c. real (isnull_sum c) < real (len_df df2) / 20) (filter numeric (columns df2))"
    and "list_all no_missing (filter is_object (columns df2))"
  shows "list_all no_missing (columns df3) \<and>
         list_all (\<lambda>c. list_all (\<lambda>v. \<not> is_text v) (cells c)) (filter numeric (columns df3))"
proof -
  let ?m = "\<lambda>c. mode0 (present (cells c))"
  let ?d = "List.map_filter (\<lambda>c. case ?m c of None \<Rightarrow> None | Some v \<Rightarrow> Some (cname c, v))
              (fixable_numeric_cols df2)"
  let ?fill = "\<lambda>c. case map_of ?d (cname c) of None \<Rightarrow> c
                 | Some v \<Rightarrow> c\<lparr>cells := map (fill_cell v) (cells c)\<rparr>"
  from assms(1) have df3: "columns df3 = map ?fill (columns df2)"
    by (auto simp: impute_step_def mode_record0_def fillna_def split: if_splits)
  have filled: "no_missing (?fill c)" if c: "c \<in> set (columns df2)" for c
  proof (cases "no_missing c")
    case True
    then show ?thesis
      by (auto simp: no_missing_def fill_cell_def split: option.splits)
  next
    case False
    with c assms(4) have "\<not> is_object c" by (auto simp: list_all_iff)
    moreover from c assms(2) have len: "length (cells c) = len_df df2" "ctype c \<noteq> Category"
      by (auto simp: regular_def list_all_iff)
    ultimately have num: "numeric c"
      by (cases "ctype c") (auto simp: numeric_def is_object_def)
    with c assms(3) have lt: "real (isnull_sum c) < real (len_df df2) / 20"
      by (auto simp: list_all_iff)
    from False have pos: "0 < isnull_sum c"
      by (simp add: isnull_sum_zero [symmetric])
    from num c lt pos have fixable: "c \<in> set (fixable_numeric_cols df2)"
      by (simp add: fixable_numeric_cols_def)
    from lt len have "isnull_sum c < length (cells c)"
      by simp
    moreover from c num assms(2) have "list_all (\<lambda>v. \<not> is_text v) (cells c)"
      by (auto simp: regular_def list_all_iff)
    ultimately obtain v where "?m c = Some v"
      using fixable_has_mode by blast
    from map_of_map_filter [of c "fixable_numeric_cols df2" ?m v cname, OF fixable this]
    obtain w where "map_of ?d (cname c) = Some w" ..
    then show ?thesis
      by (simp add: no_missing_fill)
  qed
  have numeric_fill: "numeric (?fill c) = numeric c" for c
    by (simp add: numeric_def split: option.splits)
  have text_free: "list_all (\<lambda>v. \<not> is_text v) (cells (?fill c))"
    if "list_all (\<lambda>v. \<not> is_text v) (cells c)" for c
    using that by (auto simp: list_all_iff fill_cell_def is_text_def split: option.splits)
  have "list_all no_missing (columns df3)"
    using filled by (auto simp: df3 list_all_iff)
  moreover have "list_all (\<lambda>c. list_all (\<lambda>v. \<not> is_text v) (cells c)) (filter numeric (columns df3))"
    unfolding df3 list_all_iff
  proof
    fix x assume "x \<in> set (filter numeric (map ?fill (columns df2)))"
    then obtain c where c: "c \<in> set (columns df2)" "x = ?fill c" "numeric (?fill c)"
      by auto
    with numeric_fill [of c] assms(2) have "list_all (\<lambda>v. \<not> is_text v) (cells c)"
      by (auto simp: regular_def list_all_iff)
    from text_free [OF this] c(2) show "\<forall>v\<in>set (cells x). \<not> is_text v"
      by (simp add: list_all_iff)
  qed
  ultimately show ?thesis ..
qed


lemma get_column_mem: "get_column name df = Inr c \<Longrightarrow> c \<in> set (columns df)"
  by (auto simp: get_column_def find_Some_iff split: option.splits)

lemma sub_series_no_missing:
  assumes "sub_series a b = Inr s" and "no_missing a" and "no_missing b"
    and "numeric a \<Longrightarrow> list_all (\<lambda>v. \<not> is_text v) (cells a)"
    and "numeric b \<Longrightarrow> list_all (\<lambda>v. \<not> is_text v) (cells b)"
  shows "no_missing (s\<lparr>cname := name\<rparr>)"
proof -
  let ?w = "ctype a = Integer \<and> ctype b = Integer"
  from assms(1) have n: "numeric a" "numeric b"
    and s: "cells s = map2 (sub_cell ?w) (cells a) (cells b)"
    by (auto simp: sub_series_def Let_def split: if_splits)
  have "sub_cell ?w x y \<noteq> NA" if "(x, y) \<in> set (zip (cells a) (cells b))" for x y
  proof -
    from that have "x \<in> set (cells a)" "y \<in> set (cells b)"
      by (auto dest: set_zip_leftD set_zip_rightD)
    with assms(2,3) assms(4) [OF n(1)] assms(5) [OF n(2)]
    have "\<not> is_text x" "x \<noteq> NA" "\<not> is_text y" "y \<noteq> NA"
      by (auto simp: no_missing_def list_all_iff)
    then obtain p q where "x = Num p" "y = Num q"
      by (blast dest: cell_kinds)
    then show ?thesis by simp
  qed
  then show ?thesis
    by (fastforce simp: no_missing_def s)
qed

lemma set_column_columns:
  "set (columns (set_column s df)) \<subseteq> insert s (set (columns df))"
  by (auto simp: set_column_def)

lemma derive_step_no_missing:
  assumes "derive_step df3 = Inr df4" and "list_all no_missing (columns df3)"
    and "list_all (\<lambda>c. list_all (\<lambda>v. \<not> is_text v) (cells c)) (filter numeric (columns df3))"
  shows "list_all no_missing (columns df4)"
proof -
  from assms(1) obtain yr_sold year_built years_sold year_remod years_since_remod where
    g: "get_column ''Yr Sold'' df3 = Inr yr_sold" "get_column ''Year Built'' df3 = Inr year_built"
       "get_column ''Year Remod/Add'' df3 = Inr year_remod" and
    s: "sub_series yr_sold year_built = Inr years_sold"
       "sub_series yr_sold year_remod = Inr years_since_remod" and
    df4: "df4 = set_column (years_since_remod\<lparr>cname := ''Years Since Remod''\<rparr>)
                  (set_column (years_sold\<lparr>cname := ''Years Before Sale''\<rparr>) df3)"
    unfolding derive_step_def by (auto dest!: sum_bind_eq_Inr)
  have ok: "no_missing c \<and> (numeric c \<longrightarrow> list_all (\<lambda>v. \<not> is_text v) (cells c))"
    if "c \<in> set (columns df3)" for c
    using that assms(2,3) by (auto simp: list_all_iff)
  note m = g [THEN get_column_mem, THEN ok]
  have a: "no_missing (years_sold\<lparr>cname := ''Years Before Sale''\<rparr>)"
    using sub_series_no_missing [OF s(1)] m by blast
  have b: "no_missing (years_since_remod\<lparr>cname := ''Years Since Remod''\<rparr>)"
    using sub_series_no_missing [OF s(2)] m by blast
  have "no_missing c" if "c \<in> set (columns df4)" for c
    using that a b ok set_column_columns unfolding df4 by blast
  then show ?thesis
    by (simp add: list_all_iff)
qed

lemma keep_rows_subset: "set (keep_rows labels idx xs) \<subseteq> set xs"
  by (auto simp: keep_rows_def dest: set_zip_rightD)

lemma drop_rows_no_missing:
  assumes "drop_rows labels df = Inr out" and "list_all no_missing (columns df)"
  shows "list_all no_missing (columns out)"
proof -
  from assms(1) have "columns out =
      map (\<lambda>c. c\<lparr>cells := keep_rows labels (index df) (cells c)\<rparr>) (columns df)"
    by (auto simp: drop_rows_def split: if_splits)
  with assms(2) keep_rows_subset show ?thesis
    by (fastforce simp: list_all_iff no_missing_def)
qed

text \<open>
  What the function does ensure: on a regular table in which no numeric column has
  exactly \<open>len(df)/20\<close> missing cells, the table returned has no missing cell.
\<close>

lemma transform_features_fills_off_boundary:
  assumes "transform_features df = Inr out" and "regular df"
    and "list_all (\<lambda>c. real (isnull_sum c) \<noteq> real (len_df df) / 20) (filter numeric (columns df))"
  shows "list_all no_missing (columns out)"
proof -
  from assms(1) obtain df1 df2 df3 df4 df5 where
    s1: "missing_step df = Inr df1" and s2: "text_missing_step df1 = Inr df2" and
    s3: "impute_step df2 = Inr df3" and s4: "derive_step df3 = Inr df4" and
    s5: "drop_rows bad_rows df4 = Inr df5" and s6: "drop_columns leak_columns df5 = Inr out"
    unfolding transform_features_def by (blast dest!: sum_bind_eq_Inr)
  from missing_step_regular [OF s1 assms(2,3)]
  have r1: "regular df1"
    "list_all (\<lambda>c. real (isnull_sum c) < real (len_df df1) / 20) (filter numeric (columns df1))"
    by simp_all
  from text_missing_step_regular [OF s2 r1]
  have r2: "regular df2"
    "list_all (\<lambda>c. real (isnull_sum c) < real (len_df df2) / 20) (filter numeric (columns df2))"
    "list_all no_missing (filter is_object (columns df2))"
    by simp_all
  from impute_step_fills [OF s3 r2]
  have r3: "list_all no_missing (columns df3)"
    "list_all (\<lambda>c. list_all (\<lambda>v. \<not> is_text v) (cells c)) (filter numeric (columns df3))"
    by simp_all
  from derive_step_no_missing [OF s4 r3] have "list_all no_missing (columns df4)" .
  from drop_rows_no_missing [OF s5 this] have "list_all no_missing (columns df5)" .
  with drop_columns_Inr [OF s6] show ?thesis
    by (auto simp: list_all_iff)
qed

text \<open>
  Claim C1: for every input table, no cell of the table that \<open>transform_features\<close>
  returns is missing.

  The notebook checks this on its data (\<open># Verify that every column has 0 missing
  values\<close>). The function does not ensure it: in \<open>boundary_df\<close> the column
  \<open>Lot Frontage\<close> has two missing cells in forty rows, which is not above
  \<open>len(df)/20\<close>, so it is not dropped, and not below \<open>len(df)/20\<close>, so it is not filled.
  The table returned has 37 rows and still counts two missing cells in that column.
\<close>

theorem transform_features_leaves_missing:
  "map_sum id (\<lambda>out. (len_df out, null_counts out)) (transform_features boundary_df) =
     Inr (37, [(''Lot Frontage'', 2), (''Mas Vnr Area'', 0), (''Yr Sold'', 0), (''SalePrice'', 0),
               (''Years Before Sale'', 0), (''Years Since Remod'', 0)])"
  by code_simp

text \<open>
  Claim C2: \<open>transform_features\<close> drops every column whose fraction of missing values is
  at least 5%, so that every column kept by the first step has a fraction below 5%.

  The notebook announces the step as \<open>Drop any with 5% or more missing values\<close>, and
  the code compares with \<open>num_missing > len(df)/20\<close>: a column with exactly 5% of its
  cells missing is kept. In \<open>boundary_df\<close> that column is \<open>Lot Frontage\<close>.
\<close>

theorem missing_step_keeps_five_percent:
  "map_sum id missing_fractions (missing_step boundary_df) =
     Inr [(''Order'', 0), (''PID'', 0), (''Lot Frontage'', 5 / 100), (''Mas Vnr Area'', 1 / 40),
          (''Year Built'', 0), (''Year Remod/Add'', 0), (''Mo Sold'', 0), (''Yr Sold'', 0),
          (''Sale Type'', 0), (''Sale Condition'', 0), (''SalePrice'', 0)]"
  by code_simp

section \<open>The rows that transform_features removes\<close>

lemma impute_step_index: "impute_step df = Inr out \<Longrightarrow> index out = index df"
  by (auto simp: impute_step_def dest!: sum_bind_eq_Inr)

lemma derive_step_index: "derive_step df = Inr out \<Longrightarrow> index out = index df"
  by (auto simp: derive_step_def dest!: sum_bind_eq_Inr)

text \<open>Where a column of the result comes from, step by step.\<close>

lemma find_filter_names:
  "find (\<lambda>c. cname c = name) (filter (\<lambda>c. cname c \<notin> S) cs) =
     (if name \<in> S then None else find (\<lambda>c. cname c = name) cs)"
  by (induction cs) auto

lemma find_map_same_name:
  "(\<And>c. cname (f c) = cname c) \<Longrightarrow>
     find (\<lambda>c. cname c = name) (map f cs) = map_option f (find (\<lambda>c. cname c = name) cs)"
  by (induction cs) simp_all

lemma get_column_drop_columns:
  "drop_columns labels df = Inr out \<Longrightarrow> name \<notin> set labels \<Longrightarrow>
     get_column name out = get_column name df"
  by (auto simp: drop_columns_def get_column_def find_filter_names split: if_splits)

lemma get_column_dropped:
  "drop_columns labels df = Inr out \<Longrightarrow> get_column name out = Inr c \<Longrightarrow>
     get_column name df = Inr c"
  by (auto simp: drop_columns_def get_column_def find_filter_names
      split: if_splits option.splits)

lemma get_column_impute_step:
  assumes "impute_step df = Inr out" and "get_column name out = Inr c'"
  shows "\<exists>c f. get_column name df = Inr c \<and> ctype c' = ctype c \<and>
           cells c' = map f (cells c) \<and> (\<forall>x. f (Num x) = Num x)"
proof -
  from assms(1) obtain d where out: "out = fillna d df"
    by (auto simp: impute_step_def dest!: sum_bind_eq_Inr)
  let ?fill = "\<lambda>c. case map_of d (cname c) of None \<Rightarrow> c
                 | Some v \<Rightarrow> c\<lparr>cells := map (fill_cell v) (cells c)\<rparr>"
  have "cname (?fill c) = cname c" for c
    by (simp split: option.splits)
  then have "find (\<lambda>c. cname c = name) (map ?fill (columns df)) =
               map_option ?fill (find (\<lambda>c. cname c = name) (columns df))"
    by (rule find_map_same_name)
  with assms(2) obtain c where c: "get_column name df = Inr c" "c' = ?fill c"
    by (auto simp: out fillna_def get_column_def split: option.splits)
  show ?thesis
  proof (cases "map_of d (cname c)")
    case None
    with c have "ctype c' = ctype c \<and> cells c' = map id (cells c) \<and> (\<forall>x. id (Num x) = Num x)"
      by simp
    with c(1) show ?thesis by blast
  next
    case (Some v)
    with c have "ctype c' = ctype c \<and> cells c' = map (fill_cell v) (cells c) \<and>
                 (\<forall>x. fill_cell v (Num x) = Num x)"
      by (simp add: fill_cell_def)
    with c(1) show ?thesis by blast
  qed
qed

lemma find_replaced:
  "name \<in> cname ` set cs \<Longrightarrow> cname s = name \<Longrightarrow>
     find (\<lambda>c. cname c = name) (map (\<lambda>c. if cname c = name then s else c) cs) = Some s"
  by (induction cs) auto

lemma find_appended:
  "name \<notin> cname ` set cs \<Longrightarrow> cname s = name \<Longrightarrow>
     find (\<lambda>c. cname c = name) (cs @ [s]) = Some s"
  by (induction cs) auto

lemma get_column_set_column_same: "get_column (cname s) (set_column s df) = Inr s"
  by (simp add: get_column_def set_column_def column_names_def find_replaced find_appended)

lemma find_not_replaced:
  "name \<noteq> cname s \<Longrightarrow>
     find (\<lambda>c. cname c = name) (map (\<lambda>c. if cname c = cname s then s else c) cs) =
     find (\<lambda>c. cname c = name) cs"
  by (induction cs) auto

lemma find_not_appended:
  "name \<noteq> cname s \<Longrightarrow>
     find (\<lambda>c. cname c = name) (cs @ [s]) = find (\<lambda>c. cname c = name) cs"
  by (induction cs) auto

lemma get_column_set_column_other:
  "name \<noteq> cname s \<Longrightarrow> get_column name (set_column s df) = get_column name df"
  by (simp add: get_column_def set_column_def find_not_replaced find_not_appended)

lemma get_column_drop_rows:
  assumes "drop_rows labels df = Inr out"
  shows "get_column name out =
           map_sum id (\<lambda>c. c\<lparr>cells := keep_rows labels (index df) (cells c)\<rparr>)
             (get_column name df)"
proof -
  from assms have "columns out =
      map (\<lambda>c. c\<lparr>cells := keep_rows labels (index df) (cells c)\<rparr>) (columns df)"
    by (auto simp: drop_rows_def split: if_splits)
  then show ?thesis
    by (simp add: get_column_def find_map_same_name split: option.splits)
qed

text \<open>The cells of the rows whose label is not listed, in a column of a table.\<close>

lemma length_other_rows:
  "length zs = length idx \<Longrightarrow>
     length (map snd (filter (\<lambda>p. fst p \<notin> set labels) (zip idx zs))) =
     length (filter (\<lambda>l. l \<notin> set labels) idx)"
  by (induction idx arbitrary: zs) (case_tac zs; simp)+

lemma int64_in_range: "0 \<le> i \<Longrightarrow> i < 2 ^ 63 \<Longrightarrow> int64 i = i"
  by (simp add: int64_def)

lemma sub_cell_non_negative:
  assumes "not_before w x y" and "\<And>a. f (Num a) = Num a" and "\<And>a. g (Num a) = Num a"
  shows "non_negative (sub_cell w (f x) (g y))"
proof -
  from assms(1) obtain a b where ab: "x = Num a" "y = Num b"
    by (cases x; cases y) simp_all
  show ?thesis
  proof (cases w)
    case True
    with assms(1) have "0 \<le> \<lfloor>a\<rfloor> - \<lfloor>b\<rfloor>" "\<lfloor>a\<rfloor> - \<lfloor>b\<rfloor> < 2 ^ 63"
      by (simp_all add: ab)
    then have "int64 (\<lfloor>a\<rfloor> - \<lfloor>b\<rfloor>) = \<lfloor>a\<rfloor> - \<lfloor>b\<rfloor>"
      by (rule int64_in_range)
    with True \<open>0 \<le> \<lfloor>a\<rfloor> - \<lfloor>b\<rfloor>\<close> show ?thesis
      by (simp add: ab assms(2,3))
  next
    case False
    with assms(1) show ?thesis
      by (simp add: ab assms(2,3))
  qed
qed

lemma not_before_present: "not_before w x y \<Longrightarrow> \<exists>a b. x = Num a \<and> y = Num b"
  by (cases x; cases y) simp_all

lemma kept_rows_non_negative:
  assumes "\<And>a. f (Num a) = Num a" and "\<And>a. g (Num a) = Num a"
    and "list_all (\<lambda>(l, x, y). l \<in> set labels \<or> not_before w x y) (zip idx (zip xs ys))"
  shows "list_all non_negative
           (map snd (filter (\<lambda>p. fst p \<notin> set labels)
              (zip idx (map2 (sub_cell w) (map f xs) (map g ys)))))"
  using assms(3)
proof (induction idx arbitrary: xs ys)
  case Nil
  show ?case by simp
next
  case (Cons l idx)
  show ?case
  proof (cases xs)
    case Nil
    then show ?thesis by simp
  next
    case xs: (Cons x xs')
    show ?thesis
    proof (cases ys)
      case Nil
      then show ?thesis by simp
    next
      case ys: (Cons y ys')
      from Cons.prems have rest:
        "list_all (\<lambda>(l, x, y). l \<in> set labels \<or> not_before w x y) (zip idx (zip xs' ys'))"
        and first: "l \<in> set labels \<or> not_before w x y"
        by (simp_all add: xs ys)
      from first have "l \<notin> set labels \<Longrightarrow> non_negative (sub_cell w (f x) (g y))"
        using assms(1,2) by (auto intro: sub_cell_non_negative)
      with Cons.IH [OF rest] show ?thesis
        by (simp add: xs ys)
    qed
  qed
qed

lemma kept_rows_unfilled:
  assumes "\<And>a. f (Num a) = Num a"
    and "list_all (\<lambda>(l, x, y). l \<in> set labels \<or> not_before w x y) (zip idx (zip xs ys))"
    and "length xs = length idx" and "length ys = length idx"
  shows "zip (filter (\<lambda>l. l \<notin> set labels) idx)
           (map snd (filter (\<lambda>p. fst p \<notin> set labels) (zip idx (map f xs)))) =
         filter (\<lambda>p. fst p \<notin> set labels) (zip idx xs)"
  using assms(2-)
proof (induction idx arbitrary: xs ys)
  case Nil
  show ?case by simp
next
  case (Cons l idx)
  from Cons.prems(2,3) obtain x xs' y ys' where xs: "xs = x # xs'" and ys: "ys = y # ys'"
    by (cases xs; cases ys) auto
  from Cons.prems have rest:
    "list_all (\<lambda>(l, x, y). l \<in> set labels \<or> not_before w x y) (zip idx (zip xs' ys'))"
    "length xs' = length idx" "length ys' = length idx"
    and first: "l \<in> set labels \<or> not_before w x y"
    by (simp_all add: xs ys)
  from first have "l \<notin> set labels \<Longrightarrow> f x = x"
    using assms(1) by (auto dest: not_before_present)
  with Cons.IH [OF rest] show ?case
    by (simp add: xs)
qed

lemma kept_rows_differences:
  assumes "\<And>a. f (Num a) = Num a" and "\<And>a. g (Num a) = Num a"
    and "list_all (\<lambda>(l, x, y). l \<in> set labels \<or> not_before w x y) (zip idx (zip xs ys))"
    and "length xs = length idx" and "length ys = length idx"
  shows "zip (filter (\<lambda>l. l \<notin> set labels) idx)
           (map snd (filter (\<lambda>p. fst p \<notin> set labels)
              (zip idx (map2 (sub_cell w) (map f xs) (map g ys))))) =
         filter (\<lambda>p. fst p \<notin> set labels) (zip idx (map2 (sub_cell w) xs ys))"
  using assms(3-)
proof (induction idx arbitrary: xs ys)
  case Nil
  show ?case by simp
next
  case (Cons l idx)
  from Cons.prems(2,3) obtain x xs' y ys' where xs: "xs = x # xs'" and ys: "ys = y # ys'"
    by (cases xs; cases ys) auto
  from Cons.prems have rest:
    "list_all (\<lambda>(l, x, y). l \<in> set labels \<or> not_before w x y) (zip idx (zip xs' ys'))"
    "length xs' = length idx" "length ys' = length idx"
    and first: "l \<in> set labels \<or> not_before w x y"
    by (simp_all add: xs ys)
  from first have "l \<notin> set labels \<Longrightarrow> f x = x \<and> g y = y"
    using assms(1,2) by (auto dest: not_before_present)
  with Cons.IH [OF rest] show ?case
    by (simp add: xs ys)
qed

text \<open>
  Claim C3: every row of the table that \<open>transform_features\<close> returns has
  \<open>Years Before Sale \<ge> 0\<close> and \<open>Years Since Remod \<ge> 0\<close>; the rows where either is
  negative are excluded.

  The claim fails on \<open>negative_age_df\<close>: the row labelled 1701 has the ages -1 and -2,
  and it is the first of the 18 rows of the table returned.
\<close>

theorem negative_age_row_is_kept:
  "transform_features negative_age_df = Inr negative_age_out \<and>
   len_df negative_age_out = 18 \<and>
   row 0 negative_age_out =
     (1701, [(''Mas Vnr Area'', Num 0), (''Yr Sold'', Num 2007), (''SalePrice'', Num 215000),
             (''Years Before Sale'', Num (- 1)), (''Years Since Remod'', Num (- 2))])"
  by code_simp

lemma late_remod_years:
  "get_column ''Yr Sold'' late_remod_df = Inr yr_sold_21"
  "get_column ''Year Built'' late_remod_df = Inr year_built_21"
  "get_column ''Year Remod/Add'' late_remod_df = Inr year_remod_21"
  by code_simp+

lemma late_remod_lengths:
  "length (cells yr_sold_21) = len_df late_remod_df"
  "length (cells year_built_21) = len_df late_remod_df"
  "length (cells year_remod_21) = len_df late_remod_df"
  by code_simp+

lemma late_remod_in_order:
  "in_order_off_listed_rows late_remod_df yr_sold_21 year_built_21"
  "in_order_off_listed_rows late_remod_df yr_sold_21 year_remod_21"
  by code_simp+

text \<open>
  Claim C3, amended: let \<open>transform_features\<close> return on a table in which every row
  under a label other than 1702, 2180 and 2181 has its three years \<open>Yr Sold\<close>,
  \<open>Year Built\<close> and \<open>Year Remod/Add\<close> present, with the sale not before the other two.
  Then the labels 1702, 2180 and 2181 are in the index of the table, and the rows
  returned are the rows under the other labels, in their order: each with its label, its
  year of sale, and the differences of its own years as \<open>Years Before Sale\<close> and
  \<open>Years Since Remod\<close>. Both are at least 0 in every row returned.

  The rows are removed by the three labels, not by their ages: the condition on the
  other rows cannot be left out, as \<open>negative_age_df\<close> shows.
\<close>

theorem transform_features_ages:
  assumes "transform_features df = Inr out"
    and "get_column ''Yr Sold'' df = Inr yr_sold"
    and "get_column ''Year Built'' df = Inr year_built"
    and "get_column ''Year Remod/Add'' df = Inr year_remod"
    and "length (cells yr_sold) = len_df df"
    and "length (cells year_built) = len_df df"
    and "length (cells year_remod) = len_df df"
    and "in_order_off_listed_rows df yr_sold year_built"
    and "in_order_off_listed_rows df yr_sold year_remod"
  shows "1702 \<in> set (index df) \<and> 2180 \<in> set (index df) \<and> 2181 \<in> set (index df) \<and>
         index out = filter (\<lambda>l. l \<noteq> 1702 \<and> l \<noteq> 2180 \<and> l \<noteq> 2181) (index df) \<and>
         (\<exists>sold before since.
            get_column ''Yr Sold'' out = Inr sold \<and>
            get_column ''Years Before Sale'' out = Inr before \<and>
            get_column ''Years Since Remod'' out = Inr since \<and>
            zip (index out) (cells sold) =
              filter (\<lambda>p. fst p \<noteq> 1702 \<and> fst p \<noteq> 2180 \<and> fst p \<noteq> 2181)
                (zip (index df) (cells yr_sold)) \<and>
            zip (index out) (cells before) =
              filter (\<lambda>p. fst p \<noteq> 1702 \<and> fst p \<noteq> 2180 \<and> fst p \<noteq> 2181)
                (zip (index df)
                   (map2 (sub_cell (ctype yr_sold = Integer \<and> ctype year_built = Integer))
                      (cells yr_sold) (cells year_built))) \<and>
            zip (index out) (cells since) =
              filter (\<lambda>p. fst p \<noteq> 1702 \<and> fst p \<noteq> 2180 \<and> fst p \<noteq> 2181)
                (zip (index df)
                   (map2 (sub_cell (ctype yr_sold = Integer \<and> ctype year_remod = Integer))
                      (cells yr_sold) (cells year_remod))) \<and>
            length (cells before) = len_df out \<and> length (cells since) = len_df out \<and>
            list_all non_negative (cells before) \<and> list_all non_negative (cells since))"
proof -
  from assms(1) obtain df1 df2 df3 df4 df5 where
    s1: "missing_step df = Inr df1" and s2: "text_missing_step df1 = Inr df2" and
    s3: "impute_step df2 = Inr df3" and s4: "derive_step df3 = Inr df4" and
    s5: "drop_rows bad_rows df4 = Inr df5" and s6: "drop_columns leak_columns df5 = Inr out"
    unfolding transform_features_def by (blast dest!: sum_bind_eq_Inr)
  have "index df1 = index df"
    using s1 unfolding missing_step_def by (rule drop_columns_index)
  moreover have "index df2 = index df1"
    using s2 unfolding text_missing_step_def by (rule drop_columns_index)
  ultimately have i4: "index df4 = index df"
    using impute_step_index [OF s3] derive_step_index [OF s4] by simp
  have i6: "index out = index df5"
    using s6 by (rule drop_columns_index)
  from drop_rows_index [OF s5] i4 i6
  have labels: "1702 \<in> set (index df) \<and> 2180 \<in> set (index df) \<and> 2181 \<in> set (index df)"
    and idx: "index out = filter (\<lambda>l. l \<notin> set bad_rows) (index df)"
    by (simp_all add: bad_rows_def)
  from s4 obtain ys3 yb3 yr3 b s where
    g3: "get_column ''Yr Sold'' df3 = Inr ys3" "get_column ''Year Built'' df3 = Inr yb3"
        "get_column ''Year Remod/Add'' df3 = Inr yr3" and
    sub: "sub_series ys3 yb3 = Inr b" "sub_series ys3 yr3 = Inr s" and
    df4: "df4 = set_column (s\<lparr>cname := ''Years Since Remod''\<rparr>)
                  (set_column (b\<lparr>cname := ''Years Before Sale''\<rparr>) df3)"
    unfolding derive_step_def by (auto dest!: sum_bind_eq_Inr)
  have origin: "\<exists>f. ctype c3 = ctype c \<and> cells c3 = map f (cells c) \<and> (\<forall>x. f (Num x) = Num x)"
    if "get_column name df3 = Inr c3" "get_column name df = Inr c" for name c3 c
  proof -
    from get_column_impute_step [OF s3 that(1)] obtain c2 f where
      c2: "get_column name df2 = Inr c2" and
      f: "ctype c3 = ctype c2" "cells c3 = map f (cells c2)" "\<forall>x. f (Num x) = Num x"
      by blast
    from s2 c2 have "get_column name df1 = Inr c2"
      unfolding text_missing_step_def by (rule get_column_dropped)
    with s1 have "get_column name df = Inr c2"
      unfolding missing_step_def by (rule get_column_dropped)
    with that(2) have "c2 = c" by simp
    with f show ?thesis by blast
  qed
  from origin [OF g3(1) assms(2)] obtain f where
    f: "ctype ys3 = ctype yr_sold" "cells ys3 = map f (cells yr_sold)" "\<And>x. f (Num x) = Num x"
    by blast
  from origin [OF g3(2) assms(3)] obtain g where
    g: "ctype yb3 = ctype year_built" "cells yb3 = map g (cells year_built)"
       "\<And>x. g (Num x) = Num x"
    by blast
  from origin [OF g3(3) assms(4)] obtain h where
    h: "ctype yr3 = ctype year_remod" "cells yr3 = map h (cells year_remod)"
       "\<And>x. h (Num x) = Num x"
    by blast
  let ?wb = "ctype yr_sold = Integer \<and> ctype year_built = Integer"
  let ?ws = "ctype yr_sold = Integer \<and> ctype year_remod = Integer"
  let ?before = "map2 (sub_cell ?wb) (map f (cells yr_sold)) (map g (cells year_built))"
  let ?since = "map2 (sub_cell ?ws) (map f (cells yr_sold)) (map h (cells year_remod))"
  let ?keep = "\<lambda>zs. map snd (filter (\<lambda>p. fst p \<notin> set bad_rows) (zip (index df) zs))"
  from sub f g h have cb: "cells b = ?before" and cs: "cells s = ?since"
    by (auto simp: sub_series_def Let_def split: if_splits)
  let ?b = "b\<lparr>cname := ''Years Before Sale''\<rparr>" and ?s = "s\<lparr>cname := ''Years Since Remod''\<rparr>"
  have "get_column ''Years Before Sale'' df4 = get_column (cname ?b) (set_column ?b df3)"
    unfolding df4 by (simp add: get_column_set_column_other)
  then have b4: "get_column ''Years Before Sale'' df4 = Inr ?b"
    by (simp only: get_column_set_column_same)
  have "get_column ''Years Since Remod'' df4 = get_column (cname ?s) df4"
    by simp
  then have s4': "get_column ''Years Since Remod'' df4 = Inr ?s"
    unfolding df4 by (simp only: get_column_set_column_same)
  have y4: "get_column ''Yr Sold'' df4 = Inr ys3"
    unfolding df4 by (simp add: get_column_set_column_other g3)
  have leak: "get_column name out = get_column name df5" if "name \<notin> set leak_columns" for name
    using s6 that by (rule get_column_drop_columns)
  have b6: "get_column ''Years Before Sale'' out = Inr (?b\<lparr>cells := ?keep ?before\<rparr>)"
    by (simp add: leak leak_columns_def get_column_drop_rows [OF s5] b4 cb i4 keep_rows_def)
  have s6': "get_column ''Years Since Remod'' out = Inr (?s\<lparr>cells := ?keep ?since\<rparr>)"
    by (simp add: leak leak_columns_def get_column_drop_rows [OF s5] s4' cs i4 keep_rows_def)
  have y6: "get_column ''Yr Sold'' out = Inr (ys3\<lparr>cells := ?keep (map f (cells yr_sold))\<rparr>)"
    by (simp add: leak leak_columns_def get_column_drop_rows [OF s5] y4 f i4 keep_rows_def)
  have ob: "list_all (\<lambda>(l, x, y). l \<in> set bad_rows \<or> not_before ?wb x y)
              (zip (index df) (zip (cells yr_sold) (cells year_built)))"
    using assms(8) by (simp add: in_order_off_listed_rows_def bad_rows_def)
  have os: "list_all (\<lambda>(l, x, y). l \<in> set bad_rows \<or> not_before ?ws x y)
              (zip (index df) (zip (cells yr_sold) (cells year_remod)))"
    using assms(9) by (simp add: in_order_off_listed_rows_def bad_rows_def)
  have nb: "list_all non_negative (?keep ?before)"
    using f(3) g(3) ob by (rule kept_rows_non_negative)
  have ns: "list_all non_negative (?keep ?since)"
    using f(3) h(3) os by (rule kept_rows_non_negative)
  have lb: "length (?keep ?before) = len_df out"
    using assms(5,6) length_other_rows [where zs = ?before and idx = "index df" and labels = bad_rows]
    by (simp add: len_df_def idx)
  have ls: "length (?keep ?since) = len_df out"
    using assms(5,7) length_other_rows [where zs = ?since and idx = "index df" and labels = bad_rows]
    by (simp add: len_df_def idx)
  have "zip (filter (\<lambda>l. l \<notin> set bad_rows) (index df)) (?keep (map f (cells yr_sold))) =
          filter (\<lambda>p. fst p \<notin> set bad_rows) (zip (index df) (cells yr_sold))"
    using kept_rows_unfilled [where f = f and ys = "cells year_built" and w = ?wb, OF f(3) ob]
      assms(5,6)
    by (simp add: len_df_def)
  then have rows: "zip (index out) (?keep (map f (cells yr_sold))) =
      filter (\<lambda>p. fst p \<noteq> 1702 \<and> fst p \<noteq> 2180 \<and> fst p \<noteq> 2181)
        (zip (index df) (cells yr_sold))"
    by (simp add: idx bad_rows_def)
  have "zip (filter (\<lambda>l. l \<notin> set bad_rows) (index df)) (?keep ?before) =
          filter (\<lambda>p. fst p \<notin> set bad_rows)
            (zip (index df) (map2 (sub_cell ?wb) (cells yr_sold) (cells year_built)))"
    using kept_rows_differences [OF f(3) g(3) ob] assms(5,6)
    by (simp add: len_df_def)
  then have rows_b: "zip (index out) (?keep ?before) =
      filter (\<lambda>p. fst p \<noteq> 1702 \<and> fst p \<noteq> 2180 \<and> fst p \<noteq> 2181)
        (zip (index df) (map2 (sub_cell ?wb) (cells yr_sold) (cells year_built)))"
    by (simp add: idx bad_rows_def)
  have "zip (filter (\<lambda>l. l \<notin> set bad_rows) (index df)) (?keep ?since) =
          filter (\<lambda>p. fst p \<notin> set bad_rows)
            (zip (index df) (map2 (sub_cell ?ws) (cells yr_sold) (cells year_remod)))"
    using kept_rows_differences [OF f(3) h(3) os] assms(5,7)
    by (simp add: len_df_def)
  then have rows_s: "zip (index out) (?keep ?since) =
      filter (\<lambda>p. fst p \<noteq> 1702 \<and> fst p \<noteq> 2180 \<and> fst p \<noteq> 2181)
        (zip (index df) (map2 (sub_cell ?ws) (cells yr_sold) (cells year_remod)))"
    by (simp add: idx bad_rows_def)
  from idx have idx': "index out =
      filter (\<lambda>l. l \<noteq> 1702 \<and> l \<noteq> 2180 \<and> l \<noteq> 2181) (index df)"
    by (simp add: bad_rows_def)
  from y6 b6 s6' rows rows_b rows_s lb ls nb ns
  have "\<exists>sold before since.
            get_column ''Yr Sold'' out = Inr sold \<and>
            get_column ''Years Before Sale'' out = Inr before \<and>
            get_column ''Years Since Remod'' out = Inr since \<and>
            zip (index out) (cells sold) =
              filter (\<lambda>p. fst p \<noteq> 1702 \<and> fst p \<noteq> 2180 \<and> fst p \<noteq> 2181)
                (zip (index df) (cells yr_sold)) \<and>
            zip (index out) (cells before) =
              filter (\<lambda>p. fst p \<noteq> 1702 \<and> fst p \<noteq> 2180 \<and> fst p \<noteq> 2181)
                (zip (index df)
                   (map2 (sub_cell (ctype yr_sold = Integer \<and> ctype year_built = Integer))
                      (cells yr_sold) (cells year_built))) \<and>
            zip (index out) (cells since) =
              filter (\<lambda>p. fst p \<noteq> 1702 \<and> fst p \<noteq> 2180 \<and> fst p \<noteq> 2181)
                (zip (index df)
                   (map2 (sub_cell (ctype yr_sold = Integer \<and> ctype year_remod = Integer))
                      (cells yr_sold) (cells year_remod))) \<and>
            length (cells before) = len_df out \<and> length (cells since) = len_df out \<and>
            list_all non_negative (cells before) \<and> list_all non_negative (cells since)"
    by simp
  with labels idx' show ?thesis by blast
qed

theorem transform_features_ages_witness:
  "transform_features late_remod_df = Inr late_remod_out \<and>
   get_column ''Yr Sold'' late_remod_df = Inr yr_sold_21 \<and>
   get_column ''Year Built'' late_remod_df = Inr year_built_21 \<and>
   get_column ''Year Remod/Add'' late_remod_df = Inr year_remod_21 \<and>
   length (cells yr_sold_21) = len_df late_remod_df \<and>
   length (cells year_built_21) = len_df late_remod_df \<and>
   length (cells year_remod_21) = len_df late_remod_df \<and>
   in_order_off_listed_rows late_remod_df yr_sold_21 year_built_21 \<and>
   in_order_off_listed_rows late_remod_df yr_sold_21 year_remod_21 \<and>
   1702 \<in> set (index late_remod_df) \<and> 2180 \<in> set (index late_remod_df) \<and>
   2181 \<in> set (index late_remod_df) \<and>
   index late_remod_out =
     filter (\<lambda>l. l \<noteq> 1702 \<and> l \<noteq> 2180 \<and> l \<noteq> 2181) (index late_remod_df) \<and>
   (\<exists>sold before since.
      get_column ''Yr Sold'' late_remod_out = Inr sold \<and>
      get_column ''Years Before Sale'' late_remod_out = Inr before \<and>
      get_column ''Years Since Remod'' late_remod_out = Inr since \<and>
      zip (index late_remod_out) (cells sold) =
        filter (\<lambda>p. fst p \<noteq> 1702 \<and> fst p \<noteq> 2180 \<and> fst p \<noteq> 2181)
          (zip (index late_remod_df) (cells yr_sold_21)) \<and>
      zip (index late_remod_out) (cells before) =
        filter (\<lambda>p. fst p \<noteq> 1702 \<and> fst p \<noteq> 2180 \<and> fst p \<noteq> 2181)
          (zip (index late_remod_df)
             (map2 (sub_cell (ctype yr_sold_21 = Integer \<and> ctype year_built_21 = Integer))
                (cells yr_sold_21) (cells year_built_21))) \<and>
      zip (index late_remod_out) (cells since) =
        filter (\<lambda>p. fst p \<noteq> 1702 \<and> fst p \<noteq> 2180 \<and> fst p \<noteq> 2181)
          (zip (index late_remod_df)
             (map2 (sub_cell (ctype yr_sold_21 = Integer \<and> ctype year_remod_21 = Integer))
                (cells yr_sold_21) (cells year_remod_21))) \<and>
      length (cells before) = len_df late_remod_out \<and>
      length (cells since) = len_df late_remod_out \<and>
      list_all non_negative (cells before) \<and> list_all non_negative (cells since))"
proof -
  have result: "transform_features late_remod_df = Inr late_remod_out"
    by code_simp
  from transform_features_ages [OF result late_remod_years late_remod_lengths
      late_remod_in_order]
    result late_remod_years late_remod_lengths late_remod_in_order
  show ?thesis by blast
qed

section \<open>The correlation filter of select_features\<close>

lemma abs_corr_coeffs_Inr:
  "get_column ''SalePrice'' (numerical_df df) = Inr sale_price \<Longrightarrow>
   abs_corr_coeffs nancorr df =
     Inr (map (\<lambda>c. (cname c, abs_corr nancorr sale_price c)) (filter numeric (columns df)))"
  by (simp add: abs_corr_coeffs_def numerical_df_def)

lemma pearson_pool: "pearson [(0, 1), (0, 2), (0, 3)] = None"
  by (simp add: pearson_def ssqd_def covxy_def mean_def)

lemma pearson_misc: "pearson [(1, 1), (0, 2), (1, 3)] = Some 0"
  by (simp add: pearson_def ssqd_def covxy_def mean_def)

lemma pearson_cond: "pearson [(3, 1), (2, 2), (1, 3)] = Some (- 1)"
  by (simp add: pearson_def ssqd_def covxy_def mean_def)

lemma pearson_123: "pearson [(1, 1), (2, 2), (3, 3)] = Some 1"
  by (simp add: pearson_def ssqd_def covxy_def mean_def)

lemma constant_pearson:
  "pearson (paired (cells pool_area) (cells sale_price_123)) = None"
  "pearson (paired (cells misc_val) (cells sale_price_123)) = Some 0"
  "pearson (paired (cells overall_cond) (cells sale_price_123)) = Some (- 1)"
  "pearson (paired (cells sale_price_123) (cells sale_price_123)) = Some 1"
  by (simp_all add: pool_area_def misc_val_def overall_cond_def sale_price_123_def
      pearson_pool pearson_misc pearson_cond pearson_123)

lemma constant_sale_price:
  "get_column ''SalePrice'' (numerical_df constant_df) = Inr sale_price_123"
  by code_simp

lemma constant_distinct: "distinct (column_names constant_df)"
  by code_simp

lemma constant_columns:
  "pool_area \<in> set (columns constant_df) \<and> numeric pool_area \<and>
   misc_val \<in> set (columns constant_df) \<and> numeric misc_val \<and>
   overall_cond \<in> set (columns constant_df) \<and> numeric overall_cond"
  by (simp add: constant_df_def pool_area_def misc_val_def overall_cond_def numeric_def)

text \<open>
  Claim C5: the correlation filter keeps a numeric column if and only if its absolute
  Pearson correlation with \<open>SalePrice\<close> is at least \<open>coeff_threshold\<close>, and a constant
  numeric column, whose correlation is undefined, is decided by the same rule.

  The claim fails on \<open>constant_df\<close> with the threshold 0.4: the correlation of the
  constant column \<open>Pool Area\<close> is undefined, so it is not at least 0.4, and the column
  is kept; \<open>Misc Val\<close>, with correlation 0, is dropped, and \<open>Overall Cond\<close>, with
  correlation -1, is kept.
\<close>

theorem constant_column_is_kept:
  "abs_corr_coeffs pearson constant_df =
     Inr [(''Pool Area'', None), (''Misc Val'', Some 0), (''Overall Cond'', Some 1),
          (''SalePrice'', Some 1)] \<and>
   map_sum id column_names (corr_step pearson (4 / 10) constant_df) =
     Inr [''Pool Area'', ''Overall Cond'', ''SalePrice'']"
  by (simp add: corr_step_def abs_corr_coeffs_def abs_corr_def numerical_df_def numeric_def
        get_column_def below_def drop_columns_def column_names_def
        constant_df_def pool_area_def misc_val_def overall_cond_def sale_price_123_def
        pearson_pool pearson_misc pearson_cond pearson_123)

text \<open>
  Claim C5, amended: in a table with distinct column names and a numeric \<open>SalePrice\<close>,
  the correlation filter succeeds, and it drops a numeric column if and only if the
  coefficient that pandas computes for the column and \<open>SalePrice\<close> is a number whose
  absolute value is below \<open>coeff_threshold\<close>. It keeps the column when that absolute
  value is at least the threshold, and also when the coefficient is NaN. This holds of
  every correlation routine, so of the \<open>float64\<close> routine of pandas with its rounding.
\<close>

theorem corr_step_keeps:
  assumes "get_column ''SalePrice'' (numerical_df df) = Inr sale_price"
    and "distinct (column_names df)" and "c \<in> set (columns df)" and "numeric c"
  shows "\<exists>out. corr_step nancorr coeff_threshold df = Inr out \<and>
           (c \<in> set (columns out)) =
             (case nancorr (paired (cells c) (cells sale_price)) of
                None \<Rightarrow> True
              | Some r \<Rightarrow> coeff_threshold \<le> \<bar>r\<bar>)"
proof -
  let ?weak = "filter (\<lambda>c. below coeff_threshold (abs_corr nancorr sale_price c))
                 (filter numeric (columns df))"
  have weak: "map fst (filter (\<lambda>p. below coeff_threshold (snd p))
                (map (\<lambda>c. (cname c, abs_corr nancorr sale_price c))
                   (filter numeric (columns df)))) =
              map cname ?weak"
    by (simp add: filter_map comp_def)
  have present: "list_all (\<lambda>l. l \<in> set (column_names df)) (map cname ?weak)"
    by (auto simp: list_all_iff column_names_def)
  have step: "corr_step nancorr coeff_threshold df =
                Inr (df\<lparr>columns := filter (\<lambda>c. cname c \<notin> set (map cname ?weak)) (columns df)\<rparr>)"
    using present
    by (simp only: corr_step_def abs_corr_coeffs_Inr [OF assms(1)] sum_bind_Inr weak
          drop_columns_def if_True)
  have "(cname c \<in> set (map cname ?weak)) =
          below coeff_threshold (abs_corr nancorr sale_price c)"
  proof
    assume "cname c \<in> set (map cname ?weak)"
    then obtain c' where c': "c' \<in> set (columns df)" "cname c' = cname c"
      "below coeff_threshold (abs_corr nancorr sale_price c')" by auto
    with assms(2,3) have "c' = c"
      by (auto simp: column_names_def intro: same_name_same_column)
    with c' show "below coeff_threshold (abs_corr nancorr sale_price c)" by simp
  next
    assume "below coeff_threshold (abs_corr nancorr sale_price c)"
    with assms(3,4) show "cname c \<in> set (map cname ?weak)" by auto
  qed
  with assms(3)
  have "(c \<in> set (columns (df\<lparr>columns := filter (\<lambda>c. cname c \<notin> set (map cname ?weak))
                                          (columns df)\<rparr>)))
      = (\<not> below coeff_threshold (abs_corr nancorr sale_price c))"
    by simp
  with step show ?thesis
    by (auto simp: below_def abs_corr_def split: option.splits)
qed

theorem corr_step_keeps_witness:
  "get_column ''SalePrice'' (numerical_df constant_df) = Inr sale_price_123 \<and>
   distinct (column_names constant_df) \<and>
   pool_area \<in> set (columns constant_df) \<and> numeric pool_area \<and>
   misc_val \<in> set (columns constant_df) \<and> numeric misc_val \<and>
   overall_cond \<in> set (columns constant_df) \<and> numeric overall_cond \<and>
   pearson (paired (cells pool_area) (cells sale_price_123)) = None \<and>
   pearson (paired (cells misc_val) (cells sale_price_123)) = Some 0 \<and>
   pearson (paired (cells overall_cond) (cells sale_price_123)) = Some (- 1) \<and>
   (\<exists>out. corr_step pearson (4 / 10) constant_df = Inr out \<and>
      pool_area \<in> set (columns out) \<and> misc_val \<notin> set (columns out) \<and>
      overall_cond \<in> set (columns out))"
proof -
  note keeps = corr_step_keeps [OF constant_sale_price constant_distinct,
      where nancorr = pearson and coeff_threshold = "4 / 10"]
  from constant_columns have
    "\<exists>out. corr_step pearson (4 / 10) constant_df = Inr out \<and>
       (pool_area \<in> set (columns out)) = True"
    "\<exists>out. corr_step pearson (4 / 10) constant_df = Inr out \<and>
       (misc_val \<in> set (columns out)) = False"
    "\<exists>out. corr_step pearson (4 / 10) constant_df = Inr out \<and>
       (overall_cond \<in> set (columns out)) = True"
    using keeps [of pool_area] keeps [of misc_val] keeps [of overall_cond]
    by (simp_all add: constant_pearson)
  then have "\<exists>out. corr_step pearson (4 / 10) constant_df = Inr out \<and>
      pool_area \<in> set (columns out) \<and> misc_val \<notin> set (columns out) \<and>
      overall_cond \<in> set (columns out)"
    by auto
  with constant_sale_price constant_distinct constant_columns constant_pearson
  show ?thesis by simp
qed

section \<open>The cardinality filter of select_features\<close>

lemma pearson_13: "pearson [(1, 1), (3, 3)] = Some 1"
  by (simp add: pearson_def ssqd_def covxy_def mean_def)

lemma street_coeffs: "abs_corr_coeffs pearson street_df = Inr [(''SalePrice'', Some 1)]"
  by (simp add: abs_corr_coeffs_def street_df_def street_def sale_price_13_def numerical_df_def
      numeric_def get_column_def abs_corr_def pearson_13)

lemma street_corr: "corr_step pearson (4 / 10) street_df = Inr street_df"
  by (simp only: corr_step_def street_coeffs sum_bind_Inr)
     (simp add: below_def drop_columns_def)

lemma street_uniq: "uniq_step street_df = Inr street_df"
  by code_simp

lemma find_by_name:
  "distinct (map cname cs) \<Longrightarrow> c \<in> set cs \<Longrightarrow> find (\<lambda>x. cname x = cname c) cs = Some c"
  by (induction cs) (auto simp: rev_image_eqI)

lemma get_column_by_name:
  "distinct (column_names df) \<Longrightarrow> c \<in> set (columns df) \<Longrightarrow> get_column (cname c) df = Inr c"
  by (simp add: get_column_def column_names_def find_by_name)

text \<open>
  What the cardinality filter does, in a table with distinct column names: it drops the
  columns of the nominal list with more than 10 distinct values, and no other.
\<close>

lemma uniq_step_keeps:
  assumes "distinct (column_names df)" and "c \<in> set (columns df)"
  shows "\<exists>out. uniq_step df = Inr out \<and>
           (c \<in> set (columns out)) =
             (\<not> (cname c \<in> set nominal_features \<and> 10 < uniqueness_count c))"
proof -
  have present: "list_all (\<lambda>l. l \<in> set (column_names df)) (drop_nonuniq_cols df)"
    by (auto simp: list_all_iff drop_nonuniq_cols_def transform_cat_cols_def)
  have "(cname c \<in> set (drop_nonuniq_cols df)) =
          (cname c \<in> set nominal_features \<and> 10 < uniqueness_count c)"
    using assms
    by (auto simp: drop_nonuniq_cols_def transform_cat_cols_def get_column_by_name column_names_def)
  with assms(2) present show ?thesis
    by (simp add: uniq_step_def drop_columns_def)
qed

lemma uniq_threshold_unused:
  "select_features nancorr df coeff_threshold uniq_threshold =
     select_features nancorr df coeff_threshold 10"
  by (simp add: select_features_def)

text \<open>
  Claim C4: for every value of \<open>uniq_threshold\<close>, \<open>select_features\<close> drops the columns of
  the nominal list whose number of distinct values exceeds \<open>uniq_threshold\<close>, and keeps
  the others.

  The function takes \<open>uniq_threshold\<close> and compares the counts with the literal 10. With
  \<open>uniq_threshold = 1\<close>, the column \<open>Street\<close> of \<open>street_df\<close>, which has two distinct
  values, is kept and encoded. (The only coefficient in this table is that of
  \<open>SalePrice\<close> with itself, which is 1.)
\<close>

theorem select_features_ignores_uniq_threshold:
  "select_features pearson street_df (4 / 10) 1 = Inr street_out"
  by (simp only: select_features_def street_corr street_uniq sum_bind_Inr) code_simp

section \<open>The encoding of select_features\<close>

lemma is_text_iff: "is_text v \<longleftrightarrow> (\<exists>s. v = Str s)"
  by (cases v) (simp_all add: is_text_def)

lemma set_texts: "set (texts cs) = {s. Str s \<in> set cs}"
  by (induction cs rule: texts.induct) auto

lemma all_text_image: "list_all is_text cs \<Longrightarrow> set cs = Str ` set (texts cs)"
  by (auto simp: set_texts list_all_iff is_text_iff)

lemma length_categories:
  "list_all is_text (cells c) \<Longrightarrow> length (categories c) = card (set (cells c))"
  by (simp add: categories_def length_remdups_card_conv all_text_image [of "cells c"]
      card_image inj_on_def)

lemma dummies_of_retype [simp]: "dummies_of (c\<lparr>ctype := t\<rparr>) = dummies_of c"
  by (simp add: dummies_of_def categories_def indicator_def)

lemma sum_indicator:
  "distinct xs \<Longrightarrow> x \<in> set xs \<Longrightarrow> sum_list (map (\<lambda>v. if x = v then 1 else 0) xs) = (1::real)"
proof (induction xs)
  case Nil
  then show ?case by simp
next
  case (Cons a xs)
  show ?case
  proof (cases "x = a")
    case True
    with Cons.prems have "x \<notin> set xs" by simp
    then have "sum_list (map (\<lambda>v. if x = v then 1 else 0) xs) = (0::real)"
      by (induction xs) auto
    with True show ?thesis by simp
  next
    case False
    with Cons show ?thesis by simp
  qed
qed

lemma row_sum_dummies:
  assumes "list_all is_text (cells c)" "i < length (cells c)"
  shows "row_sum i (dummies_of c) = 1"
proof -
  from assms obtain s where s: "cells c ! i = Str s"
    by (auto simp: list_all_length is_text_iff)
  with assms(2) have "s \<in> set (categories c)"
    by (auto simp: categories_def set_texts dest: nth_mem)
  moreover have "distinct (categories c)"
    by (simp add: categories_def)
  ultimately have "sum_list (map (\<lambda>v. if s = v then 1 else 0) (categories c)) = (1::real)"
    by (intro sum_indicator)
  moreover have "cell_value (cells (indicator c v) ! i) = (if s = v then 1 else 0)" for v
    using assms(2) s by (simp add: indicator_def cell_value_def)
  ultimately show ?thesis
    by (simp add: row_sum_def dummies_of_def comp_def)
qed

lemma dummies_names:
  "d \<in> set (dummies_of c) \<Longrightarrow> \<exists>v. Str v \<in> set (cells c) \<and> cname d = cname c @ ''_'' @ v"
  by (auto simp: dummies_of_def indicator_def categories_def set_texts)

lemma get_dummies_Inr:
  assumes "c \<in> set (columns df)" "is_object c"
  shows "\<exists>first rest. get_dummies (astype_category df) = Inr (first @ dummies_of c @ rest)"
proof -
  let ?enc = "filter (\<lambda>c. ctype c = Category) (columns (astype_category df))"
  from assms have "c\<lparr>ctype := Category\<rparr> \<in> set (columns (astype_category df))"
    by (auto simp: astype_category_def intro!: image_eqI [where x = c])
  then have in_enc: "c\<lparr>ctype := Category\<rparr> \<in> set ?enc"
    by simp
  then obtain e1 e2 where enc: "?enc = e1 @ c\<lparr>ctype := Category\<rparr> # e2"
    by (blast dest: split_list)
  then have "get_dummies (astype_category df) =
      Inr (concat (map dummies_of e1) @ dummies_of c @ concat (map dummies_of e2))"
    by (simp add: get_dummies_def Let_def)
  then show ?thesis by blast
qed

lemma text_cols_present:
  "list_all (\<lambda>l. l \<in> set (column_names ((astype_category df)
               \<lparr>columns := columns (astype_category df) @ dummies\<rparr>))) (text_cols df)"
  by (auto simp: list_all_iff text_cols_def column_names_def astype_category_def
      intro: rev_image_eqI)

lemma encode_step_Inr:
  assumes "get_dummies (astype_category df) = Inr dummies"
  shows "encode_step df =
     Inr ((astype_category df)
            \<lparr>columns := filter (\<lambda>c. cname c \<notin> set (text_cols df))
                          (columns (astype_category df) @ dummies)\<rparr>)"
  using text_cols_present [of df dummies]
  by (simp add: encode_step_def assms drop_columns_def Let_def)

lemma street_hyps:
  "street \<in> set (columns street_df) \<and> is_object street \<and> list_all is_text (cells street)"
  by (simp add: street_df_def) (simp add: street_def is_object_def is_text_def)

lemma street_free:
  "\<forall>d\<in>set (columns street_df). \<forall>v.
     is_object d \<and> Str v \<in> set (cells street) \<longrightarrow> cname d \<noteq> cname street @ ''_'' @ v"
  by (simp add: street_df_def street_def sale_price_13_def is_object_def)

lemma collision_coeffs: "abs_corr_coeffs pearson collision_df = Inr [(''SalePrice'', Some 1)]"
  by (simp add: abs_corr_coeffs_def collision_df_def sale_price_13_def numerical_df_def
      numeric_def get_column_def abs_corr_def pearson_13)

lemma collision_corr: "corr_step pearson (4 / 10) collision_df = Inr collision_df"
  by (simp only: corr_step_def collision_coeffs sum_bind_Inr)
     (simp add: below_def drop_columns_def)

lemma collision_uniq: "uniq_step collision_df = Inr collision_df"
  by code_simp

text \<open>
  Claim C9: for every table that reaches the encoding step of \<open>select_features\<close> and
  every text column \<open>c\<close> of it with \<open>k\<close> distinct values and no missing cell, the encoding
  adds exactly \<open>k\<close> indicator columns, each holding only 0 and 1, whose sum is 1 in
  every row, and no column of the returned table has the name of \<open>c\<close>.

  The claim fails on \<open>collision_df\<close>: the column \<open>A\<close> has the two values \<open>x\<close> and \<open>y\<close>,
  and its indicator of \<open>x\<close> gets the name \<open>A_x\<close> of the second text column. The final
  \<open>drop\<close> goes by name and removes it with that column: the returned table has one
  indicator of \<open>A\<close>, which is 0 in the first row.
\<close>

theorem indicator_is_dropped:
  "map_sum id (\<lambda>out. map (\<lambda>d. (cname d, cells d)) (columns out))
     (select_features pearson collision_df (4 / 10) 10) =
     Inr [(''SalePrice'', [Num 1, Num 3]), (''A_y'', [Num 0, Num 1]),
          (''A_x_p'', [Num 1, Num 0]), (''A_x_q'', [Num 0, Num 1])]"
  by (simp only: select_features_def collision_corr collision_uniq sum_bind_Inr) code_simp

text \<open>
  Claim C9, amended: let \<open>c\<close> be a text column with no missing cell, in a table that
  reaches the encoding step, such that no text column of the table is named \<open>c_v\<close>
  for a value \<open>v\<close> of \<open>c\<close>. Then the returned table has no column of the name of \<open>c\<close>, and
  it holds, side by side and in ascending order of the values, one column for each
  distinct value \<open>v\<close> of \<open>c\<close>: the integer column named \<open>c_v\<close> that is 1 in the rows
  where \<open>c\<close> is \<open>v\<close> and 0 in the others. There are as many of them as \<open>c\<close> has distinct
  values, and their sum is 1 in every row.
\<close>

theorem one_hot_encoding:
  assumes "corr_step nancorr coeff_threshold df = Inr df1" and "uniq_step df1 = Inr df2"
    and "c \<in> set (columns df2)" and "is_object c" and "list_all is_text (cells c)"
    and "\<forall>d\<in>set (columns df2). \<forall>v.
           is_object d \<and> Str v \<in> set (cells c) \<longrightarrow> cname d \<noteq> cname c @ ''_'' @ v"
  shows "\<exists>out before block after.
           select_features nancorr df coeff_threshold uniq_threshold = Inr out \<and>
           cname c \<notin> set (column_names out) \<and>
           columns out = before @ block @ after \<and>
           block =
             map (\<lambda>v. \<lparr>cname = cname c @ ''_'' @ v, ctype = Integer,
                        cells = map (\<lambda>x. if x = Str v then Num 1 else Num 0) (cells c)\<rparr>)
               (sorted_list_of_set {v. Str v \<in> set (cells c)}) \<and>
           length block = card (set (cells c)) \<and>
           (\<forall>i<length (cells c). row_sum i block = 1)"
proof -
  from get_dummies_Inr [OF assms(3,4)] obtain first rest
    where d: "get_dummies (astype_category df2) = Inr (first @ dummies_of c @ rest)"
    by blast
  let ?keep = "filter (\<lambda>c. cname c \<notin> set (text_cols df2))"
  let ?out = "(astype_category df2)
            \<lparr>columns := ?keep (columns (astype_category df2) @ first @ dummies_of c @ rest)\<rparr>"
  have out: "select_features nancorr df coeff_threshold uniq_threshold = Inr ?out"
    by (simp add: select_features_def assms(1,2) encode_step_Inr [OF d])
  have "cname c \<in> set (text_cols df2)"
    using assms(3,4) by (auto simp: text_cols_def)
  then have absent: "cname c \<notin> set (column_names ?out)"
    by (auto simp: column_names_def)
  have "cname d \<notin> set (text_cols df2)" if "d \<in> set (dummies_of c)" for d
    using dummies_names [OF that] assms(6) by (auto simp: text_cols_def)
  then have "?keep (dummies_of c) = dummies_of c"
    by (simp add: filter_id_conv)
  then have cols: "columns ?out =
      ?keep (columns (astype_category df2) @ first) @ dummies_of c @ ?keep rest"
    by simp
  have k: "length (dummies_of c) = card (set (cells c))"
    using length_categories [OF assms(5)] by (simp add: dummies_of_def)
  have block: "dummies_of c =
     map (\<lambda>v. \<lparr>cname = cname c @ ''_'' @ v, ctype = Integer,
                cells = map (\<lambda>x. if x = Str v then Num 1 else Num 0) (cells c)\<rparr>)
       (sorted_list_of_set {v. Str v \<in> set (cells c)})"
    by (simp add: dummies_of_def indicator_def categories_def set_texts [symmetric]
        sorted_list_of_set_sort_remdups)
  from out absent cols k row_sum_dummies [OF assms(5)] block
  show ?thesis
    by blast
qed

theorem one_hot_encoding_witness:
  "corr_step pearson (4 / 10) street_df = Inr street_df \<and>
   uniq_step street_df = Inr street_df \<and>
   street \<in> set (columns street_df) \<and> is_object street \<and> list_all is_text (cells street) \<and>
   (\<exists>out before block after.
      select_features pearson street_df (4 / 10) 10 = Inr out \<and>
      cname street \<notin> set (column_names out) \<and>
      columns out = before @ block @ after \<and>
      block =
        map (\<lambda>v. \<lparr>cname = cname street @ ''_'' @ v, ctype = Integer,
                   cells = map (\<lambda>x. if x = Str v then Num 1 else Num 0) (cells street)\<rparr>)
          (sorted_list_of_set {v. Str v \<in> set (cells street)}) \<and>
      length block = card (set (cells street)) \<and>
      (\<forall>i<length (cells street). row_sum i block = 1))"
proof -
  from street_hyps have h: "street \<in> set (columns street_df)" "is_object street"
    "list_all is_text (cells street)" by simp_all
  from one_hot_encoding [OF street_corr street_uniq h street_free, of 10] h
    street_corr street_uniq
  show ?thesis by blast
qed

section \<open>Errors of train_and_test\<close>

lemma check_array_no_rows [simp]: "check_array 0 X = Inl ValueError"
  by (simp add: check_array_def)

lemma check_array_no_columns [simp]: "check_array n [] = Inl ValueError"
  by (simp add: check_array_def)

lemma fit_no_features [simp]: "fit n [] y = Inl ValueError"
  by (simp add: fit_def)

lemma feature_matrix_Nil [simp]: "feature_matrix [] df = []"
  by (simp add: feature_matrix_def)

lemma len_tail_rows [simp]: "len_df (tail_rows n df) = len_df df - n"
  by (simp add: tail_rows_def len_df_def)

lemma len_head_rows [simp]: "len_df (head_rows n df) = min (len_df df) n"
  by (simp add: head_rows_def len_df_def)

lemma find_map_cells:
  "find (\<lambda>c. cname c = name) (map (\<lambda>c. c\<lparr>cells := g c\<rparr>) cs) =
     map_option (\<lambda>c. c\<lparr>cells := g c\<rparr>) (find (\<lambda>c. cname c = name) cs)"
  by (induction cs) simp_all

lemma find_numeric:
  "name \<in> set (map cname (filter numeric cs)) \<Longrightarrow> \<exists>c. find (\<lambda>c. cname c = name) cs = Some c"
  by (cases "find (\<lambda>c. cname c = name) cs") (auto simp: find_None_iff)

lemma sale_price_found:
  assumes "feature_names df = Inr features"
  shows "\<exists>c. get_column ''SalePrice'' df = Inr c"
proof -
  from assms have "''SalePrice'' \<in> set (map cname (filter numeric (columns df)))"
    by (simp add: feature_names_def column_names_def numerical_df_def split: if_splits)
  from find_numeric [OF this] show ?thesis
    by (auto simp: get_column_def)
qed

lemma get_column_head_rows:
  "get_column name df = Inr c \<Longrightarrow> \<exists>c'. get_column name (head_rows n df) = Inr c'"
  by (auto simp: get_column_def head_rows_def find_map_cells split: option.splits)

lemma get_column_iloc:
  "get_column name df = Inr c \<Longrightarrow> \<exists>c'. get_column name (iloc ps df) = Inr c'"
  by (auto simp: get_column_def iloc_def find_map_cells split: option.splits)

lemma fit_rmse_no_features:
  "get_column ''SalePrice'' train = Inr c \<Longrightarrow> fit_rmse [] train test = Inl ValueError"
  by (simp add: fit_rmse_def fit_mse_def)

lemma length_cut [simp]: "length (cut sizes xs) = length sizes"
  by (induction sizes arbitrary: xs) simp_all

lemma cut_eq_Nil [simp]: "cut sizes xs = [] \<longleftrightarrow> sizes = []"
  by (cases sizes) simp_all

lemma kfold_split_nonempty:
  "kfold_split k n shuffled = Inr splits \<Longrightarrow> splits \<noteq> []"
  by (auto simp: kfold_split_def fold_sizes_def split: if_splits)

lemma kfold_positions_in_range:
  "kfold_split k n shuffled = Inr splits \<Longrightarrow>
     list_all (\<lambda>split. list_all (\<lambda>i. i < n) (fst split @ snd split)) splits"
  by (auto simp: kfold_split_def list_all_iff train_index_def test_index_def split: if_splits)

lemma kfold_split_error:
  "kfold_split k n shuffled = Inl e \<Longrightarrow> e = ValueError"
  by (auto simp: kfold_split_def split: if_splits)

lemma ct_features: "feature_names constant_target_df = Inr [''Gr Liv Area'']"
  by code_simp

lemma ct_split:
  "kfold_split 2 (len_df constant_target_df) [0, 1, 2, 3] =
     Inr [([2, 3], [0, 1]), ([0, 1], [2, 3])]"
  by code_simp

lemma ct_mse_23:
  "fit_mse [''Gr Liv Area''] (iloc [2, 3] constant_target_df) (iloc [0, 1] constant_target_df)
     = Inr 0"
  by code_simp

lemma ct_mse_01:
  "fit_mse [''Gr Liv Area''] (iloc [0, 1] constant_target_df) (iloc [2, 3] constant_target_df)
     = Inr 0"
  by code_simp

lemma ct_distinct_prices:
  "map (\<lambda>positions. map_sum id uniqueness_count
          (get_column ''SalePrice'' (iloc positions constant_target_df))) [[2, 3], [0, 1]] =
     [Inr 1, Inr 1]"
  by code_simp

lemma only_price_features: "feature_names only_price_df = Inr []"
  by code_simp

lemma kfold_len: "len_df kfold_df \<le> 1460"
  by (simp add: kfold_df_def len_df_def)

text \<open>
  Claim C7: \<open>train_and_test\<close> raises an error when the table has no numeric column
  besides \<open>SalePrice\<close>, and when the training rows hold fewer than two distinct values
  of \<open>SalePrice\<close>; it returns a number only when neither is the case.

  The claim fails on \<open>constant_target_df\<close> with two folds: each training half holds one
  distinct price, the fit is the constant model, and the function returns the number 0.
\<close>

theorem constant_target_is_fitted:
  "map (\<lambda>positions. map_sum id uniqueness_count
          (get_column ''SalePrice'' (iloc positions constant_target_df))) [[2, 3], [0, 1]] =
     [Inr 1, Inr 1] \<and>
   kfold_split 2 (len_df constant_target_df) [0, 1, 2, 3] =
     Inr [([2, 3], [0, 1]), ([0, 1], [2, 3])] \<and>
   train_and_test constant_target_df 2 [0, 1, 2, 3] = Inr 0"
  by (simp only: train_and_test_def ct_features ct_split kfold_rmse_values.simps fit_rmse_def
        ct_mse_23 ct_mse_01 ct_distinct_prices sum_bind_Inr fst_conv snd_conv)
     (simp add: mean_def)

text \<open>
  Claim C7, amended: \<open>train_and_test\<close> raises \<open>ValueError\<close>, in every mode, when the
  table has no numeric column besides \<open>SalePrice\<close>. It does not look at the number of
  distinct values of \<open>SalePrice\<close> in the training rows.
\<close>

theorem no_feature_is_an_error:
  assumes "feature_names df = Inr []"
  shows "train_and_test df k shuffled = Inl ValueError"
proof -
  from sale_price_found [OF assms] obtain c where c: "get_column ''SalePrice'' df = Inr c" ..
  have head: "fit_rmse [] (head_rows 1460 df) test = Inl ValueError" for test
    using get_column_head_rows [OF c] by (auto intro: fit_rmse_no_features)
  have part: "fit_rmse [] (iloc ps df) test = Inl ValueError" for ps test
    using get_column_iloc [OF c] by (auto intro: fit_rmse_no_features)
  show ?thesis
  proof (cases "kfold_split k (len_df df) shuffled")
    case (Inl e)
    with head show ?thesis
      by (auto simp: train_and_test_def assms dest: kfold_split_error)
  next
    case (Inr splits)
    then obtain s ss where "splits = s # ss"
      using kfold_split_nonempty [OF Inr] by (cases splits) auto
    with head part Inr show ?thesis
      by (simp add: train_and_test_def assms)
  qed
qed

theorem no_feature_is_an_error_witness:
  "feature_names only_price_df = Inr [] \<and>
   train_and_test only_price_df 0 [] = Inl ValueError \<and>
   train_and_test only_price_df 2 [0, 1, 2, 3] = Inl ValueError"
  using no_feature_is_an_error [OF only_price_features] only_price_features
  by simp

text \<open>
  Claim C10: on a table of at most 1460 rows, \<open>train_and_test\<close> in holdout mode
  (\<open>k = 0\<close>) raises an error and returns no value: the rows from position 1460 on are
  none, and nothing can be predicted or scored on them.
\<close>

theorem holdout_needs_more_than_1460_rows:
  assumes "len_df df \<le> 1460"
  shows "\<exists>e. train_and_test df 0 shuffled = Inl e"
proof (cases "feature_names df")
  case (Inl e)
  then show ?thesis by (simp add: train_and_test_def)
next
  case (Inr features)
  have "predict lr (len_df (tail_rows 1460 df)) X = Inl ValueError" for lr X
    using assms by (simp add: predict_def)
  then have "\<exists>e. fit_mse features (head_rows 1460 df) (tail_rows 1460 df) = Inl e"
    by (auto simp: fit_mse_def sum_bind_def split: sum.splits)
  then show ?thesis
    using Inr by (auto simp: train_and_test_def fit_rmse_def)
qed

theorem holdout_needs_more_than_1460_rows_witness:
  "len_df kfold_df \<le> 1460 \<and> (\<exists>e. train_and_test kfold_df 0 [0, 1, 2, 3] = Inl e)"
  using holdout_needs_more_than_1460_rows [OF kfold_len] kfold_len
  by simp

section \<open>The two-way cross check\<close>

lemma feature_is_numeric:
  assumes "complete d" "feature_names d = Inr fs" "name \<in> set fs \<or> name = ''SalePrice''"
    "c \<in> set (columns d)" "cname c = name"
  shows "numeric c \<and> numbers (cells c) \<noteq> None \<and> length (cells c) = len_df d"
proof -
  from assms(2,3) have "name \<in> set (map cname (filter numeric (columns d)))"
    by (auto simp: feature_names_def column_names_def numerical_df_def split: if_splits)
  then obtain c' where c': "c' \<in> set (columns d)" "numeric c'" "cname c' = name"
    by auto
  with assms(1,4,5) have "c = c'"
    by (auto simp: complete_def column_names_def intro: same_name_same_column)
  with c' assms(1,4) show ?thesis
    by (auto simp: complete_def list_all_iff)
qed

lemma feature_has_column:
  assumes "feature_names d = Inr fs" "name \<in> set fs"
  shows "\<exists>c \<in> set (columns d). cname c = name"
  using assms
  by (auto simp: feature_names_def column_names_def numerical_df_def split: if_splits)

lemma check_array_features:
  assumes "complete d" "feature_names d = Inr fs" "fs \<noteq> []" "0 < len_df d"
  shows "\<exists>cols. check_array (len_df d) (feature_matrix fs d) = Inr cols"
proof -
  from assms(3) obtain f where f: "f \<in> set fs" by (cases fs) auto
  from feature_has_column [OF assms(2) f] have "feature_matrix fs d \<noteq> []"
    using f by (auto simp: feature_matrix_def filter_empty_conv)
  moreover have "numbers cs \<noteq> None" if "cs \<in> set (feature_matrix fs d)" for cs
  proof -
    from that obtain name c where "name \<in> set fs" "c \<in> set (columns d)" "cname c = name"
      "cs = cells c"
      by (auto simp: feature_matrix_def)
    with feature_is_numeric [OF assms(1,2), of name c] show ?thesis by simp
  qed
  ultimately show ?thesis
    using assms(4) by (auto simp: check_array_def list_ex_iff)
qed

lemma check_vector_target:
  assumes "complete d" "feature_names d = Inr fs" "0 < len_df d"
  shows "\<exists>c v. get_column ''SalePrice'' d = Inr c \<and> check_vector (cells c) = Inr v"
proof -
  from sale_price_found [OF assms(2)] obtain c where c: "get_column ''SalePrice'' d = Inr c" ..
  then have "c \<in> set (columns d)" "cname c = ''SalePrice''"
    by (auto simp: get_column_def find_Some_iff split: option.splits)
  with feature_is_numeric [OF assms(1,2), of "''SalePrice''" c]
  have "numbers (cells c) \<noteq> None" "length (cells c) = len_df d" by simp_all
  with assms(3) have "\<exists>v. check_vector (cells c) = Inr v"
    by (auto simp: check_vector_def numbers_def split: if_splits)
  with c show ?thesis by blast
qed

lemma fit_rmse_succeeds:
  assumes "complete a" "complete b" "feature_names a = Inr fs" "feature_names b = Inr fs"
    "fs \<noteq> []" "0 < len_df a" "0 < len_df b"
  shows "\<exists>rmse. fit_rmse fs a b = Inr rmse"
proof -
  from check_array_features [OF assms(1,3,5,6)] obtain Xa
    where Xa: "check_array (len_df a) (feature_matrix fs a) = Inr Xa" ..
  from check_array_features [OF assms(2,4,5,7)] obtain Xb
    where Xb: "check_array (len_df b) (feature_matrix fs b) = Inr Xb" ..
  from check_vector_target [OF assms(1,3,6)] obtain ca ya
    where ya: "get_column ''SalePrice'' a = Inr ca" "check_vector (cells ca) = Inr ya" by blast
  from check_vector_target [OF assms(2,4,7)] obtain cb yb
    where yb: "get_column ''SalePrice'' b = Inr cb" "check_vector (cells cb) = Inr yb" by blast
  show ?thesis
    by (simp add: fit_rmse_def fit_mse_def fit_def predict_def mean_squared_error_def
        Xa Xb ya yb Let_def)
qed

lemma column_names_head_rows [simp]: "column_names (head_rows n df) = column_names df"
  by (simp add: column_names_def head_rows_def comp_def)

lemma column_names_tail_rows [simp]: "column_names (tail_rows n df) = column_names df"
  by (simp add: column_names_def tail_rows_def comp_def)

lemma numeric_cells_update [simp]: "numeric (c\<lparr>cells := x\<rparr>) = numeric c"
  by (simp add: numeric_def)

lemma feature_names_head_rows [simp]: "feature_names (head_rows n df) = feature_names df"
  by (simp add: feature_names_def numerical_df_def column_names_def head_rows_def filter_map
      comp_def)

lemma feature_names_tail_rows [simp]: "feature_names (tail_rows n df) = feature_names df"
  by (simp add: feature_names_def numerical_df_def column_names_def tail_rows_def filter_map
      comp_def)

lemma numbers_take: "numbers cs = Some v \<Longrightarrow> \<exists>w. numbers (take n cs) = Some w"
  by (auto simp: numbers_def list_all_iff split: if_splits dest: in_set_takeD)

lemma numbers_drop: "numbers cs = Some v \<Longrightarrow> \<exists>w. numbers (drop n cs) = Some w"
  by (auto simp: numbers_def list_all_iff split: if_splits dest: in_set_dropD)

lemma complete_head_rows:
  assumes "complete df"
  shows "complete (head_rows n df)"
proof -
  have "distinct (column_names (head_rows n df))"
    using assms by (simp add: complete_def)
  moreover have "list_all (\<lambda>c. length (cells c) = len_df (head_rows n df))
                   (columns (head_rows n df))"
    using assms by (auto simp: complete_def list_all_iff head_rows_def len_df_def)
  moreover have "list_all (\<lambda>c. numbers (cells c) \<noteq> None)
                   (filter numeric (columns (head_rows n df)))"
    using assms
    by (auto simp: complete_def list_all_iff head_rows_def) (blast dest: numbers_take)
  ultimately show ?thesis
    by (simp add: complete_def)
qed

lemma complete_tail_rows:
  assumes "complete df"
  shows "complete (tail_rows n df)"
proof -
  have "distinct (column_names (tail_rows n df))"
    using assms by (simp add: complete_def)
  moreover have "list_all (\<lambda>c. length (cells c) = len_df (tail_rows n df))
                   (columns (tail_rows n df))"
    using assms by (auto simp: complete_def list_all_iff tail_rows_def len_df_def)
  moreover have "list_all (\<lambda>c. numbers (cells c) \<noteq> None)
                   (filter numeric (columns (tail_rows n df)))"
    using assms
    by (auto simp: complete_def list_all_iff tail_rows_def) (blast dest: numbers_drop)
  ultimately show ?thesis
    by (simp add: complete_def)
qed

lemma two_way_ignores_shuffle: "train_and_test df 1 p = train_and_test df 1 q"
  by (simp add: train_and_test_def Let_def)

lemma two_way_no_feature:
  assumes "feature_names df = Inr []"
  shows "train_and_test df 1 shuffled = Inl ValueError"
proof -
  from sale_price_found [OF assms] obtain c where c: "get_column ''SalePrice'' df = Inr c" ..
  have "fit_rmse [] (head_rows 1460 df) test = Inl ValueError" for test
    using get_column_head_rows [OF c] by (auto intro: fit_rmse_no_features)
  then show ?thesis
    by (simp add: train_and_test_def assms Let_def)
qed

lemma long_price_len: "len_df long_price_df = 1461"
  by (simp add: long_price_df_def len_df_def)

lemma long_price_features: "feature_names long_price_df = Inr []"
  by (simp add: long_price_df_def feature_names_def numerical_df_def numeric_def column_names_def)

lemma long_price_complete: "complete long_price_df"
  by (simp add: complete_def long_price_df_def column_names_def len_df_def numeric_def
      numbers_def list_all_iff)

lemma holdout_len: "len_df holdout_df = 1462"
  by (simp add: holdout_df_def len_df_def)

lemma holdout_features: "feature_names holdout_df = Inr [''Gr Liv Area'']"
  by (simp add: holdout_df_def feature_names_def numerical_df_def numeric_def column_names_def)

lemma numbers_replicate: "\<exists>v. numbers (replicate n (Num x) @ [Num y, Num z]) = Some v"
  by (simp add: numbers_def list_all_iff)

lemma holdout_complete: "complete holdout_df"
  by (simp add: complete_def holdout_df_def column_names_def len_df_def numeric_def
      numbers_replicate)

text \<open>
  Claim C8: on a table of more than 1460 rows, \<open>train_and_test\<close> with \<open>k = 1\<close> returns
  the mean of two root mean squared errors, one from fitting on the first 1460 rows of
  the table as it is and scoring on the others, one from fitting on the others and
  scoring on the first 1460; the value does not depend on the shuffled copy that the
  function makes.

  The claim fails on \<open>long_price_df\<close>, a complete table of 1461 rows whose only column
  is the price: there is no feature to fit on, and the call raises \<open>ValueError\<close> and
  returns no mean.
\<close>

theorem two_way_without_feature:
  "len_df long_price_df = 1461 \<and> complete long_price_df \<and>
   train_and_test long_price_df 1 (rev [0..<1461]) = Inl ValueError"
  by (intro conjI long_price_len long_price_complete two_way_no_feature long_price_features)

text \<open>
  Claim C8, amended: on a complete table of more than 1460 rows with at least one
  numeric column besides \<open>SalePrice\<close>, both rounds succeed, the one that fits on the
  first 1460 rows of the table as it is and scores on the rows after them, and the one
  that fits on the rows after them and scores on the first 1460; and whatever the
  shuffle, \<open>train_and_test\<close> with \<open>k = 1\<close> returns the mean of their two root mean
  squared errors.
\<close>

theorem two_way_cross_check:
  assumes "1460 < len_df df" and "complete df"
    and "feature_names df = Inr features" and "features \<noteq> []"
  shows "\<exists>rmse_one rmse_two.
           fit_rmse features
             \<lparr>index = take 1460 (index df),
              columns = map (\<lambda>c. c\<lparr>cells := take 1460 (cells c)\<rparr>) (columns df)\<rparr>
             \<lparr>index = drop 1460 (index df),
              columns = map (\<lambda>c. c\<lparr>cells := drop 1460 (cells c)\<rparr>) (columns df)\<rparr>
             = Inr rmse_one \<and>
           fit_rmse features
             \<lparr>index = drop 1460 (index df),
              columns = map (\<lambda>c. c\<lparr>cells := drop 1460 (cells c)\<rparr>) (columns df)\<rparr>
             \<lparr>index = take 1460 (index df),
              columns = map (\<lambda>c. c\<lparr>cells := take 1460 (cells c)\<rparr>) (columns df)\<rparr>
             = Inr rmse_two \<and>
           (\<forall>shuffled. train_and_test df 1 shuffled = Inr ((rmse_one + rmse_two) / 2))"
proof -
  let ?train = "head_rows 1460 df" and ?test = "tail_rows 1460 df"
  have c: "complete ?train" "complete ?test"
    using assms(2) by (simp_all add: complete_head_rows complete_tail_rows)
  have l: "0 < len_df ?train" "0 < len_df ?test"
    using assms(1) by simp_all
  have f: "feature_names ?train = Inr features" "feature_names ?test = Inr features"
    using assms(3) by simp_all
  from fit_rmse_succeeds [OF c(1) c(2) f(1) f(2) assms(4) l(1) l(2)]
  obtain rmse_one where one: "fit_rmse features ?train ?test = Inr rmse_one" ..
  from fit_rmse_succeeds [OF c(2) c(1) f(2) f(1) assms(4) l(2) l(1)]
  obtain rmse_two where two: "fit_rmse features ?test ?train = Inr rmse_two" ..
  from one two have "train_and_test df 1 shuffled = Inr ((rmse_one + rmse_two) / 2)"
    for shuffled
    by (simp add: train_and_test_def assms(3) Let_def mean_def)
  with one two show ?thesis
    unfolding head_rows_def tail_rows_def by blast
qed

theorem two_way_cross_check_witness:
  "1460 < len_df holdout_df \<and> complete holdout_df \<and>
   feature_names holdout_df = Inr [''Gr Liv Area''] \<and>
   (\<exists>rmse_one rmse_two.
      fit_rmse [''Gr Liv Area'']
        \<lparr>index = take 1460 (index holdout_df),
         columns = map (\<lambda>c. c\<lparr>cells := take 1460 (cells c)\<rparr>) (columns holdout_df)\<rparr>
        \<lparr>index = drop 1460 (index holdout_df),
         columns = map (\<lambda>c. c\<lparr>cells := drop 1460 (cells c)\<rparr>) (columns holdout_df)\<rparr>
        = Inr rmse_one \<and>
      fit_rmse [''Gr Liv Area'']
        \<lparr>index = drop 1460 (index holdout_df),
         columns = map (\<lambda>c. c\<lparr>cells := drop 1460 (cells c)\<rparr>) (columns holdout_df)\<rparr>
        \<lparr>index = take 1460 (index holdout_df),
         columns = map (\<lambda>c. c\<lparr>cells := take 1460 (cells c)\<rparr>) (columns holdout_df)\<rparr>
        = Inr rmse_two \<and>
      (\<forall>shuffled. train_and_test holdout_df 1 shuffled = Inr ((rmse_one + rmse_two) / 2)))"
proof -
  have l: "1460 < len_df holdout_df" by (simp add: holdout_len)
  have n: "[''Gr Liv Area''] \<noteq> []" by simp
  from two_way_cross_check [OF l holdout_complete holdout_features n]
    l holdout_complete holdout_features
  show ?thesis by blast
qed

section \<open>The folds of the cross validation\<close>


lemma kfold_features: "feature_names kfold_df = Inr [''Gr Liv Area'']"
  by code_simp


lemma kfold_split_b:
  "kfold_split 2 (len_df kfold_df) [0, 2, 1, 3] = Inr [([1, 3], [0, 2]), ([0, 2], [1, 3])]"
  by code_simp



lemma kfold_mse_13:
  "fit_mse [''Gr Liv Area''] (iloc [1, 3] kfold_df) (iloc [0, 2] kfold_df) = Inr 1"
  by code_simp

lemma kfold_mse_02:
  "fit_mse [''Gr Liv Area''] (iloc [0, 2] kfold_df) (iloc [1, 3] kfold_df) = Inr 1"
  by code_simp


lemma kfold_run_b: "train_and_test kfold_df 2 [0, 2, 1, 3] = Inr 1"
  by (simp only: train_and_test_def kfold_features kfold_split_b kfold_rmse_values.simps
        fit_rmse_def kfold_mse_13 kfold_mse_02 sum_bind_Inr fst_conv snd_conv)
     (simp add: mean_def)






end
